theory Spec2Isabelle
  imports Main "HOL-Library.Word"
begin

unbundle bit_operations_syntax

section \<open>Constants of common.h\<close>

type_synonym byte = "8 word"

definition TFTP_MAX_RETRIES :: int where "TFTP_MAX_RETRIES = 3"
definition TFTP_DATA_HEADER_SIZE :: nat where "TFTP_DATA_HEADER_SIZE = 4"
definition TFTP_MAX_DATA_SIZE :: nat where "TFTP_MAX_DATA_SIZE = 512"
definition TFTP_MAX_PACKET_SIZE :: nat where
  "TFTP_MAX_PACKET_SIZE = TFTP_DATA_HEADER_SIZE + TFTP_MAX_DATA_SIZE"
definition MAX_FILE_NAME :: nat where "MAX_FILE_NAME = 256"

text \<open>The enum \<open>TFTPOpcode\<close>; its values are compared with bytes promoted to \<open>int\<close>.\<close>

definition TFTP_RRQ :: int where "TFTP_RRQ = 1"
definition TFTP_WRQ :: int where "TFTP_WRQ = 2"
definition TFTP_DATA :: int where "TFTP_DATA = 3"
definition TFTP_ACK :: int where "TFTP_ACK = 4"
definition TFTP_ERROR :: int where "TFTP_ERROR = 5"
definition TFTP_DRQ :: int where "TFTP_DRQ = 6"

text \<open>The enum \<open>TFTPError\<close>.\<close>

definition ERROR_UNDEFINED :: int where "ERROR_UNDEFINED = 0"
definition ERROR_FILE_NOT_FOUND :: int where "ERROR_FILE_NOT_FOUND = 1"
definition ERROR_ACCESS_VIOLATION :: int where "ERROR_ACCESS_VIOLATION = 2"
definition ERROR_DISK_FULL :: int where "ERROR_DISK_FULL = 3"
definition ERROR_ILLEGAL_OPERATION :: int where "ERROR_ILLEGAL_OPERATION = 4"
definition ERROR_UNKNOWN_TID :: int where "ERROR_UNKNOWN_TID = 5"
definition ERROR_FILE_EXISTS :: int where "ERROR_FILE_EXISTS = 6"
definition ERROR_NO_SUCH_USER :: int where "ERROR_NO_SUCH_USER = 7"

named_theorems tftp_consts

declare TFTP_MAX_RETRIES_def [tftp_consts]
declare TFTP_DATA_HEADER_SIZE_def [tftp_consts]
declare TFTP_MAX_DATA_SIZE_def [tftp_consts]
declare TFTP_MAX_PACKET_SIZE_def [tftp_consts]
declare MAX_FILE_NAME_def [tftp_consts]
declare TFTP_RRQ_def [tftp_consts]
declare TFTP_WRQ_def [tftp_consts]
declare TFTP_DATA_def [tftp_consts]
declare TFTP_ACK_def [tftp_consts]
declare TFTP_ERROR_def [tftp_consts]
declare TFTP_DRQ_def [tftp_consts]
declare ERROR_UNDEFINED_def [tftp_consts]
declare ERROR_FILE_NOT_FOUND_def [tftp_consts]
declare ERROR_ACCESS_VIOLATION_def [tftp_consts]
declare ERROR_DISK_FULL_def [tftp_consts]
declare ERROR_ILLEGAL_OPERATION_def [tftp_consts]
declare ERROR_UNKNOWN_TID_def [tftp_consts]
declare ERROR_FILE_EXISTS_def [tftp_consts]
declare ERROR_NO_SUCH_USER_def [tftp_consts]

section \<open>The environment of one transfer\<close>

text \<open>
  Every call of \<open>recvfrom\<close> consumes one event: a failure (\<open>len < 0\<close>, a timeout when
  \<open>errno\<close> is \<open>EAGAIN\<close>) or a datagram. When no event is left nothing arrives any more,
  which the socket reports as a timeout.
\<close>

datatype recv_event = Timeout | RecvError | Datagram "byte list"

datatype errno = ENOSPC | EACCES | EPERM | EIO

text \<open>
  The result of one \<open>fwrite\<close>: everything was stored, or only the first \<open>n\<close> bytes were
  and \<open>errno\<close> was set.
\<close>

datatype fwrite_event = WriteAll | WriteShort nat errno

text \<open>What a run does to the outside, oldest first.\<close>

datatype effect = Sent "byte list" | SendFailed "byte list" | Wrote "byte list"

text \<open>
  \<open>TFTPRequest\<close> together with the locals the handlers pass by pointer
  (\<open>block_number\<close>, \<open>retry\<close>, \<open>success\<close>), the local file (\<open>filepath\<close> holds its bytes,
  \<open>fpos\<close> the read position, \<open>linked\<close> whether its name exists in the directory), and
  the results the environment will give to the next calls of \<open>recvfrom\<close>, \<open>sendto\<close> and
  \<open>fwrite\<close>. An exhausted \<open>send_res\<close> or \<open>write_res\<close> means that the call succeeds.
\<close>

record transfer =
  opcode :: int
  filename :: "byte list"
  buffer :: "byte list"
  filepath :: "byte list"
  fpos :: nat
  linked :: bool
  block_number :: int
  retry :: int
  success :: bool
  net_in :: "recv_event list"
  send_res :: "bool list"
  write_res :: "fwrite_event list"
  trace :: "effect list"

section \<open>common.c\<close>

definition sendto :: "byte list \<Rightarrow> transfer \<Rightarrow> bool \<times> transfer" where
  "sendto pkt s =
     (case send_res s of
        [] \<Rightarrow> (True, s\<lparr>trace := trace s @ [Sent pkt]\<rparr>)
      | ok # rest \<Rightarrow>
          (ok, s\<lparr>send_res := rest,
                 trace := trace s @ [if ok then Sent pkt else SendFailed pkt]\<rparr>))"

text \<open>
  \<open>recvfrom(sockfd, buffer, TFTP_MAX_PACKET_SIZE, ...)\<close> stores at most 516 bytes of the
  datagram at the start of the buffer and leaves the rest of the buffer as it was.
\<close>

definition recv_into :: "byte list \<Rightarrow> byte list \<Rightarrow> byte list" where
  "recv_into buf d =
     (let len = min (length d) TFTP_MAX_PACKET_SIZE in take len d @ drop len buf)"

text \<open>
  \<open>block_number >> 8\<close> and \<open>block_number & 0xFF\<close> on an \<open>int\<close> are \<open>div 256\<close> and
  \<open>mod 256\<close>; the assignment to an \<open>unsigned char\<close> keeps the low eight bits.
\<close>

definition send_data_packet :: "nat \<Rightarrow> int \<Rightarrow> transfer \<Rightarrow> bool \<times> transfer" where
  "send_data_packet bytes_read b s =
     (let buf = (buffer s)[0 := 0, 1 := word_of_int TFTP_DATA,
                           2 := word_of_int (b div 256), 3 := word_of_int (b mod 256)]
      in sendto (take (bytes_read + TFTP_DATA_HEADER_SIZE) buf) (s\<lparr>buffer := buf\<rparr>))"

definition send_ack :: "int \<Rightarrow> transfer \<Rightarrow> bool \<times> transfer" where
  "send_ack b s =
     (let buf = (buffer s)[0 := 0, 1 := word_of_int TFTP_ACK,
                           2 := word_of_int (b div 256), 3 := word_of_int (b mod 256)]
      in sendto (take TFTP_DATA_HEADER_SIZE buf) (s\<lparr>buffer := buf\<rparr>))"

definition check_ack :: "byte list \<Rightarrow> int \<Rightarrow> bool" where
  "check_ack buf b =
     (let received_block = uint (buf ! 2) * 256 + uint (buf ! 3) in
      if uint (buf ! 2) = b div 256 \<and> uint (buf ! 3) = b mod 256 then True
      else if received_block \<noteq> b then False
      else False)"

definition get_response :: "transfer \<Rightarrow> int \<times> transfer" where
  "get_response s =
     (case net_in s of
        [] \<Rightarrow> (- 1, s)
      | Timeout # rest \<Rightarrow> (- 1, s\<lparr>net_in := rest\<rparr>)
      | RecvError # rest \<Rightarrow> (- 1, s\<lparr>net_in := rest\<rparr>)
      | Datagram d # rest \<Rightarrow>
          (let len = min (length d) TFTP_MAX_PACKET_SIZE;
               buf = recv_into (buffer s) d;
               s' = s\<lparr>net_in := rest, buffer := buf\<rparr>
           in if uint (buf ! 1) = TFTP_ACK then (1, s')
              else if uint (buf ! 1) = TFTP_DATA then (int len, s')
              else if uint (buf ! 1) = TFTP_ERROR then (- 1, s')
              else (- 1, s')))"

text \<open>\<open>fseek(file, offset, SEEK_CUR)\<close> fails when the position would become negative.\<close>

definition fseek_cur :: "int \<Rightarrow> transfer \<Rightarrow> transfer option" where
  "fseek_cur offset s =
     (if int (fpos s) + offset < 0 then None
      else Some (s\<lparr>fpos := nat (int (fpos s) + offset)\<rparr>))"

definition validate_and_retry :: "nat \<Rightarrow> bool \<Rightarrow> transfer \<Rightarrow> bool \<times> transfer" where
  "validate_and_retry bytes_read is_upload s =
     (if \<not> check_ack (buffer s) (block_number s) then
        (let s1 = s\<lparr>success := False, retry := retry s + 1\<rparr> in
         if retry s1 \<ge> TFTP_MAX_RETRIES then (False, s1)
         else if is_upload then
           (case fseek_cur (- int bytes_read) s1 of
              None \<Rightarrow> (False, s1)
            | Some s2 \<Rightarrow> (True, snd (send_data_packet bytes_read (block_number s2) s2)))
         else (True, snd (send_ack (block_number s1) s1)))
      else
        (let s1 = (if \<not> is_upload then snd (send_ack (block_number s) s) else s) in
         (True, s1\<lparr>retry := 0, block_number := block_number s1 + 1, success := True\<rparr>)))"

text \<open>
  \<open>fread(buffer + 4, 1, n, file)\<close>: the bytes from the read position, at most \<open>n\<close>, go
  into the buffer behind the header; the result is their number.
\<close>

definition fread :: "nat \<Rightarrow> transfer \<Rightarrow> nat \<times> transfer" where
  "fread n s =
     (let chunk = take n (drop (fpos s) (filepath s));
          buf = take TFTP_DATA_HEADER_SIZE (buffer s) @ chunk
                @ drop (TFTP_DATA_HEADER_SIZE + length chunk) (buffer s)
      in (length chunk, s\<lparr>buffer := buf, fpos := fpos s + length chunk\<rparr>))"

definition fwrite :: "byte list \<Rightarrow> transfer \<Rightarrow> nat \<times> transfer" where
  "fwrite xs s =
     (case write_res s of
        [] \<Rightarrow> (length xs, s\<lparr>filepath := filepath s @ xs, trace := trace s @ [Wrote xs]\<rparr>)
      | WriteAll # rest \<Rightarrow>
          (length xs, s\<lparr>filepath := filepath s @ xs, write_res := rest, trace := trace s @ [Wrote xs]\<rparr>)
      | WriteShort n e # rest \<Rightarrow>
          (min n (length xs),
           s\<lparr>filepath := filepath s @ take n xs, write_res := rest,
             trace := trace s @ [Wrote (take n xs)]\<rparr>))"

text \<open>
  \<open>write_to_file\<close> calls \<open>send_error_packet\<close> with a null socket when \<open>fwrite\<close> stores less
  than asked; that call returns at once, so nothing is sent and the state stays as it is.
\<close>

definition write_to_file :: "byte list \<Rightarrow> int \<Rightarrow> transfer \<Rightarrow> bool \<times> transfer" where
  "write_to_file data len s =
     (if len < 0 then (False, s)
      else (case fwrite (take (nat len) data) s of
              (n, s') \<Rightarrow> if n \<noteq> nat len then (False, s') else (True, s')))"

definition process_transfer_send :: "transfer \<Rightarrow> bool \<times> transfer" where
  "process_transfer_send s =
     (case fread TFTP_MAX_DATA_SIZE s of (bytes_read, s1) \<Rightarrow>
      if bytes_read \<le> 0 then (False, s1)
      else (case send_data_packet bytes_read (block_number s1) s1 of (sent, s2) \<Rightarrow>
      if \<not> sent then (False, s2)
      else (case get_response s2 of (r, s3) \<Rightarrow>
      if r < 0 then (False, s3)
      else (case validate_and_retry bytes_read True s3 of (v, s4) \<Rightarrow>
      if \<not> v then (False, s4)
      else if bytes_read < TFTP_MAX_DATA_SIZE \<and> success s4 then (False, s4)
      else (True, s4)))))"

definition process_transfer_receive :: "transfer \<Rightarrow> bool \<times> transfer" where
  "process_transfer_receive s =
     (case get_response s of (len, s1) \<Rightarrow>
      if len < 0 then (False, s1)
      else (case validate_and_retry 0 False s1 of (v, s2) \<Rightarrow>
      if \<not> v then (False, s2)
      else (case write_to_file (drop TFTP_DATA_HEADER_SIZE (buffer s2))
                               (len - int TFTP_DATA_HEADER_SIZE) s2 of (w, s3) \<Rightarrow>
      if \<not> w then (False, s3)
      else if len < int TFTP_MAX_PACKET_SIZE \<and> success s3 then (False, s3)
      else (True, s3))))"

text \<open>
  The canonical message of an error code (\<open>tftp_error_message\<close>); \<open>bytes_of\<close> gives the
  bytes of a string literal, without its terminating NUL.
\<close>

definition tftp_error_message :: "int \<Rightarrow> string" where
  "tftp_error_message error_code =
     (if error_code = ERROR_FILE_NOT_FOUND then ''File not found''
      else if error_code = ERROR_ACCESS_VIOLATION then ''Access violation''
      else if error_code = ERROR_DISK_FULL then ''Disk full or allocation exceeded''
      else if error_code = ERROR_ILLEGAL_OPERATION then ''Illegal TFTP operation''
      else if error_code = ERROR_UNKNOWN_TID then ''Unknown transfer ID''
      else if error_code = ERROR_FILE_EXISTS then ''File already exists''
      else if error_code = ERROR_NO_SUCH_USER then ''No such user''
      else ''Undefined error'')"

definition bytes_of :: "string \<Rightarrow> byte list" where
  "bytes_of str = map of_char str"

text \<open>A C string argument is read up to its first NUL.\<close>

definition cstr :: "byte list \<Rightarrow> byte list" where
  "cstr m = takeWhile (\<lambda>c. c \<noteq> 0) m"

definition strlen :: "byte list \<Rightarrow> nat" where
  "strlen m = length (cstr m)"

text \<open>\<open>snprintf(dst, size, ...)\<close> stores at most \<open>size - 1\<close> bytes of the text and a NUL.\<close>

definition snprintf :: "nat \<Rightarrow> byte list \<Rightarrow> byte list" where
  "snprintf n txt = take (n - 1) txt @ [0]"

text \<open>
  \<open>send_error_packet\<close>; \<open>socket\<close> tells whether the socket pointer is non-null, and
  \<open>custom_message\<close> is \<open>None\<close> for a null pointer.
\<close>

definition send_error_packet ::
    "bool \<Rightarrow> int \<Rightarrow> byte list option \<Rightarrow> transfer \<Rightarrow> transfer" where
  "send_error_packet socket error_code custom_message s =
     (if \<not> socket then s
      else
        (let hdr = (buffer s)[0 := 0, 1 := word_of_int TFTP_ERROR,
                              2 := word_of_int ((error_code div 256) mod 256),
                              3 := word_of_int (error_code mod 256)];
             error_message = bytes_of (tftp_error_message error_code);
             txt = (case custom_message of
                      Some m \<Rightarrow> error_message @ bytes_of '' - '' @ cstr m
                    | None \<Rightarrow> error_message);
             out = snprintf (TFTP_MAX_PACKET_SIZE - TFTP_DATA_HEADER_SIZE) txt;
             buf = take TFTP_DATA_HEADER_SIZE hdr @ out
                   @ drop (TFTP_DATA_HEADER_SIZE + length out) hdr;
             n = TFTP_DATA_HEADER_SIZE + strlen (drop TFTP_DATA_HEADER_SIZE buf) + 1
         in snd (sendto (take n buf) (s\<lparr>buffer := buf\<rparr>))))"

section \<open>The transfer loops\<close>

lemma sendto_net_in: "net_in (snd (sendto pkt s)) = net_in s"
  by (simp add: sendto_def split: list.splits)

lemma send_data_packet_net_in: "net_in (snd (send_data_packet n b s)) = net_in s"
  by (simp add: send_data_packet_def Let_def sendto_net_in)

lemma send_ack_net_in: "net_in (snd (send_ack b s)) = net_in s"
  by (simp add: send_ack_def Let_def sendto_net_in)

lemma fread_net_in: "net_in (snd (fread n s)) = net_in s"
  by (simp add: fread_def Let_def)

lemma fwrite_net_in: "net_in (snd (fwrite xs s)) = net_in s"
  by (simp add: fwrite_def split: list.splits fwrite_event.splits)

lemma write_to_file_net_in: "net_in (snd (write_to_file xs len s)) = net_in s"
  using fwrite_net_in [of "take (nat len) xs" s]
  by (auto simp: write_to_file_def split: prod.splits)

lemma validate_and_retry_net_in: "net_in (snd (validate_and_retry n u s)) = net_in s"
  by (simp add: validate_and_retry_def Let_def fseek_cur_def send_data_packet_net_in
      send_ack_net_in split: option.splits)

lemma get_response_net_in:
  "get_response s = (r, s') \<Longrightarrow> 0 \<le> r \<Longrightarrow> length (net_in s') < length (net_in s)"
  by (auto simp: get_response_def Let_def split: list.splits recv_event.splits if_splits)

lemma process_transfer_send_net_in:
  assumes "process_transfer_send s = (True, s')"
  shows "length (net_in s') < length (net_in s)"
proof -
  obtain n s1 where f: "fread TFTP_MAX_DATA_SIZE s = (n, s1)" by force
  obtain ok s2 where d: "send_data_packet n (block_number s1) s1 = (ok, s2)" by force
  obtain r s3 where g: "get_response s2 = (r, s3)" by force
  obtain v s4 where w: "validate_and_retry n True s3 = (v, s4)" by force
  from assms f d g w have r: "0 \<le> r" and e: "s' = s4"
    by (auto simp: process_transfer_send_def split: if_splits)
  have "net_in s1 = net_in s" using fread_net_in [of TFTP_MAX_DATA_SIZE s] f by simp
  moreover have "net_in s2 = net_in s1"
    using send_data_packet_net_in [of n "block_number s1" s1] d by simp
  moreover have "length (net_in s3) < length (net_in s2)"
    using get_response_net_in [OF g r] .
  moreover have "net_in s4 = net_in s3"
    using validate_and_retry_net_in [of n True s3] w by simp
  ultimately show ?thesis using e by simp
qed

lemma process_transfer_receive_net_in:
  assumes "process_transfer_receive s = (True, s')"
  shows "length (net_in s') < length (net_in s)"
proof -
  obtain len s1 where g: "get_response s = (len, s1)" by force
  obtain v s2 where w: "validate_and_retry 0 False s1 = (v, s2)" by force
  obtain k s3 where f: "write_to_file (drop TFTP_DATA_HEADER_SIZE (buffer s2))
      (len - int TFTP_DATA_HEADER_SIZE) s2 = (k, s3)" by force
  from assms g w f have r: "0 \<le> len" and e: "s' = s3"
    by (auto simp: process_transfer_receive_def split: if_splits)
  have "length (net_in s1) < length (net_in s)"
    using get_response_net_in [OF g r] .
  moreover have "net_in s2 = net_in s1"
    using validate_and_retry_net_in [of 0 False s1] w by simp
  moreover have "net_in s3 = net_in s2"
    using write_to_file_net_in [of "drop TFTP_DATA_HEADER_SIZE (buffer s2)"
        "len - int TFTP_DATA_HEADER_SIZE" s2] f by simp
  ultimately show ?thesis using e by simp
qed

text \<open>\<open>while (process_transfer_send(...));\<close> and \<open>while (process_transfer_receive(...));\<close>\<close>

function send_loop :: "transfer \<Rightarrow> transfer" where
  "send_loop s =
     (case process_transfer_send s of (again, s') \<Rightarrow> if again then send_loop s' else s')"
  by pat_completeness auto
termination
  by (relation "measure (\<lambda>s. length (net_in s))")
     (auto dest: process_transfer_send_net_in [OF sym])

function receive_loop :: "transfer \<Rightarrow> transfer" where
  "receive_loop s =
     (case process_transfer_receive s of (again, s') \<Rightarrow> if again then receive_loop s' else s')"
  by pat_completeness auto
termination
  by (relation "measure (\<lambda>s. length (net_in s))")
     (auto dest: process_transfer_receive_net_in [OF sym])

declare send_loop.simps [simp del]
declare receive_loop.simps [simp del]

section \<open>The handlers of tftp_client.c and tftp_server.c\<close>

definition MODE :: string where "MODE = ''octet''"

text \<open>
  \<open>send_request\<close> lays the request into the buffer and sends it. The client has checked
  that the path is at most \<open>MAX_FILE_NAME\<close> bytes long, so the request fits the buffer.
\<close>

definition send_request :: "transfer \<Rightarrow> bool \<times> transfer" where
  "send_request s =
     (let pkt = [0, word_of_int (opcode s)] @ filename s @ [0] @ bytes_of MODE @ [0];
          buf = pkt @ drop (length pkt) (buffer s)
      in sendto pkt (s\<lparr>buffer := buf\<rparr>))"

text \<open>
  \<open>remove(request->filename)\<close> after a receive loop; the condition
  \<open>!success || request->buffer[1] == TFTP_ERROR\<close> is evaluated left to right.
\<close>

definition remove_on_failure :: "transfer \<Rightarrow> transfer" where
  "remove_on_failure s =
     (if \<not> success s then s\<lparr>linked := False\<rparr>
      else if uint (buffer s ! 1) = TFTP_ERROR then s\<lparr>linked := False\<rparr>
      else s)"

text \<open>
  The client's \<open>download_request\<close>; \<open>fopen_ok\<close> tells whether
  \<open>fopen(request->filename, "wb")\<close> succeeds, which creates the empty file.
\<close>

definition client_download_request :: "bool \<Rightarrow> transfer \<Rightarrow> bool \<times> transfer" where
  "client_download_request fopen_ok s0 =
     (case send_request (s0\<lparr>success := False\<rparr>) of (sent, s1) \<Rightarrow>
      if \<not> sent then (False, s1)
      else if \<not> fopen_ok then
        (False, send_error_packet True ERROR_UNDEFINED
                  (Some (bytes_of ''Error opening file for writing'')) s1)
      else
        (let s2 = receive_loop
                    (s1\<lparr>filepath := [], fpos := 0, linked := True,
                        block_number := 1, retry := - 1\<rparr>);
             s3 = remove_on_failure s2
         in (success s3, s3)))"

text \<open>The client's \<open>upload_request\<close>; the file was opened for reading before.\<close>

definition client_upload_request :: "transfer \<Rightarrow> bool \<times> transfer" where
  "client_upload_request s0 =
     (case send_request (s0\<lparr>success := False\<rparr>) of (sent, s1) \<Rightarrow>
      if \<not> sent then (False, s1)
      else (case get_response s1 of (r, s2) \<Rightarrow>
      if r < 0 then (False, s2)
      else (let s3 = send_loop (s2\<lparr>block_number := 1, retry := 0\<rparr>)
            in (success s3, s3))))"



section \<open>The server's prog.c\<close>


definition TFTP_OPCODE_SIZE :: nat where "TFTP_OPCODE_SIZE = 2"

declare TFTP_OPCODE_SIZE_def [tftp_consts]


















section \<open>Observations used to state the claims\<close>

text \<open>Whether the next \<open>sendto\<close> succeeds.\<close>

definition send_ok :: "transfer \<Rightarrow> bool" where
  "send_ok s = (case send_res s of [] \<Rightarrow> True | ok # rest \<Rightarrow> ok)"

text \<open>The buffer after \<open>send_data_packet\<close> or \<open>send_ack\<close> has laid its four header bytes.\<close>

definition data_header :: "int \<Rightarrow> int \<Rightarrow> byte list \<Rightarrow> byte list" where
  "data_header op b buf =
     buf[0 := 0, 1 := word_of_int op, 2 := word_of_int (b div 256), 3 := word_of_int (b mod 256)]"

text \<open>The effect of one \<open>sendto\<close> of a packet in a state.\<close>

definition tx :: "transfer \<Rightarrow> byte list \<Rightarrow> effect" where
  "tx s pkt = (if send_ok s then Sent pkt else SendFailed pkt)"

text \<open>The bytes the next \<open>fwrite\<close> stores when asked to write \<open>xs\<close>.\<close>

definition stored :: "transfer \<Rightarrow> byte list \<Rightarrow> byte list" where
  "stored s xs =
     (case write_res s of
        [] \<Rightarrow> xs
      | WriteAll # rest \<Rightarrow> xs
      | WriteShort n e # rest \<Rightarrow> take n xs)"

text \<open>The block number field of a DATA or ACK packet, and the packets themselves.\<close>

definition block_field :: "byte list \<Rightarrow> int" where
  "block_field d = uint (d ! 2) * 256 + uint (d ! 3)"

definition ack_packet :: "int \<Rightarrow> byte list" where
  "ack_packet b = [0, word_of_int TFTP_ACK, word_of_int (b div 256), word_of_int (b mod 256)]"

definition data_packet :: "int \<Rightarrow> byte list \<Rightarrow> byte list" where
  "data_packet b payload =
     [0, word_of_int TFTP_DATA, word_of_int (b div 256), word_of_int (b mod 256)] @ payload"






text \<open>
  The packet \<open>send_error_packet\<close> lays and sends for an error code and a custom message
  that is a C string: the header, the text \<open>snprintf\<close> stores (at most 511 bytes) and
  its NUL.
\<close>

definition error_packet :: "int \<Rightarrow> byte list option \<Rightarrow> byte list" where
  "error_packet code custom =
     [0, 5, word_of_int (code div 256), word_of_int (code mod 256)]
     @ take 511 (case custom of
                   None \<Rightarrow> bytes_of (tftp_error_message code)
                 | Some m \<Rightarrow> bytes_of (tftp_error_message code) @ bytes_of '' - '' @ m)
     @ [0]"

text \<open>
  The error taxonomy of the specification: the codes and what each of them means.
\<close>

definition error_taxonomy :: "(int \<times> string) list" where
  "error_taxonomy =
     [(0, ''Undefined error''),
      (1, ''File not found''),
      (2, ''Access violation''),
      (3, ''Disk full or allocation exceeded''),
      (4, ''Illegal TFTP operation''),
      (5, ''Unknown transfer ID''),
      (6, ''File already exists''),
      (7, ''No such user'')]"

text \<open>
  The error packet as the specification words it (\<open>encode_error(code, msg)\<close>): the bytes
  0 and 5, the two bytes of the code, the message and a NUL, where the message is the
  canonical one of the taxonomy, followed by \<open>" - "\<close> and the custom message when one is
  given, and cut so that it fits 512 bytes together with its NUL. A code outside the
  taxonomy has no encoding.
\<close>

definition encode_error :: "int \<Rightarrow> byte list option \<Rightarrow> byte list option" where
  "encode_error code custom =
     (case map_of error_taxonomy code of
        None \<Rightarrow> None
      | Some canonical \<Rightarrow>
          Some ([0, 5, word_of_int (code div 256), word_of_int (code mod 256)]
                @ take 511 (case custom of
                              None \<Rightarrow> bytes_of canonical
                            | Some m \<Rightarrow> bytes_of canonical @ bytes_of '' - '' @ m)
                @ [0]))"




text \<open>A custom message is a C string: it holds no NUL.\<close>

definition c_string :: "byte list option \<Rightarrow> bool" where
  "c_string custom = (case custom of None \<Rightarrow> True | Some m \<Rightarrow> 0 \<notin> set m)"

section \<open>Concrete runs\<close>

text \<open>A request with a zeroed buffer, no file and nothing to receive.\<close>

definition idle :: transfer where
  "idle = \<lparr>opcode = 0, filename = [], buffer = replicate 516 0, filepath = [], fpos = 0,
            linked = False, block_number = 0, retry = 0, success = False, net_in = [],
            send_res = [], write_res = [], trace = []\<rparr>"

text \<open>A sender at block 1 of a three-byte file that receives ACK(1).\<close>

definition c6_state :: transfer where
  "c6_state = idle\<lparr>filepath := [97, 98, 99], linked := True, block_number := 1,
                    net_in := [Datagram [0, 4, 0, 1]]\<rparr>"

text \<open>
  A client that uploads the three-byte file \<open>f\<close> and gets ACK(0) for its WRQ; the
  answer to DATA(1) is a DATA packet of block 1, or a datagram of one byte.
\<close>

definition c4_state :: transfer where
  "c4_state = idle\<lparr>opcode := 2, filename := [102], filepath := [97, 98, 99], linked := True,
                    net_in := [Datagram [0, 4, 0, 0], Datagram [0, 3, 0, 1]]\<rparr>"

definition c4_short_state :: transfer where
  "c4_short_state = idle\<lparr>opcode := 2, filename := [102], filepath := [97, 98, 99],
                           linked := True,
                           net_in := [Datagram [0, 4, 0, 0], Datagram [7]]\<rparr>"

text \<open>A sender at block 65535 whose buffer holds ACK(65535).\<close>

definition c8_state :: transfer where
  "c8_state = idle\<lparr>buffer := [0, 4, 255, 255] @ replicate 512 0, block_number := 65535\<rparr>"

text \<open>
  A receiver that expects block 1 and gets DATA(1) with two bytes, while the disk is full.
\<close>

definition c10_state :: transfer where
  "c10_state = idle\<lparr>linked := True, block_number := 1,
                     net_in := [Datagram [0, 3, 0, 1, 120, 121]],
                     write_res := [WriteShort 0 ENOSPC]\<rparr>"

text \<open>
  A client that downloads the file \<open>f\<close>: DATA(1) with 512 bytes arrives twice, as it does
  when the sender has not seen the first ACK in time, and then DATA(2) with one byte.
  \<open>c5_loop\<close> is the state in which \<open>download_request\<close> enters the receive loop,
  \<open>c5_stored\<close> the state after the step that stores block 1, and \<open>c5_duplicate\<close> the
  state after the step that receives block 1 again.
\<close>

definition c5_state :: transfer where
  "c5_state = idle\<lparr>opcode := 1, filename := [102],
                    net_in := [Datagram ([0, 3, 0, 1] @ replicate 512 120),
                               Datagram ([0, 3, 0, 1] @ replicate 512 120),
                               Datagram [0, 3, 0, 2, 121]]\<rparr>"

definition c5_loop :: transfer where
  "c5_loop = idle\<lparr>opcode := 1, filename := [102],
                   buffer := [0, 1, 102, 0, 111, 99, 116, 101, 116, 0] @ replicate 506 0,
                   trace := [Sent [0, 1, 102, 0, 111, 99, 116, 101, 116, 0]],
                   linked := True, block_number := 1, retry := - 1,
                   net_in := [Datagram ([0, 3, 0, 1] @ replicate 512 120),
                              Datagram ([0, 3, 0, 1] @ replicate 512 120),
                              Datagram [0, 3, 0, 2, 121]]\<rparr>"

definition c5_stored :: transfer where
  "c5_stored = snd (process_transfer_receive c5_loop)"

definition c5_duplicate :: transfer where
  "c5_duplicate = snd (process_transfer_receive c5_stored)"









text \<open>
  A client that uploads the file \<open>f\<close> and gets ACK(0) for its WRQ and then ACK(1); the
  file is empty, or holds 512 bytes.
\<close>

definition c1_state :: "byte list \<Rightarrow> transfer" where
  "c1_state bytes = idle\<lparr>opcode := 2, filename := [102], filepath := bytes, linked := True,
                           net_in := [Datagram [0, 4, 0, 0], Datagram [0, 4, 0, 1]]\<rparr>"

text \<open>
  A client that downloads the file \<open>f\<close> and gets DATA(1) with two bytes while the disk is
  full, and one that gets DATA(1) with 512 bytes and then nothing more.
\<close>

definition c3_write_state :: transfer where
  "c3_write_state = idle\<lparr>opcode := 1, filename := [102],
                          net_in := [Datagram [0, 3, 0, 1, 120, 121]],
                          write_res := [WriteShort 0 ENOSPC]\<rparr>"

definition c3_timeout_state :: transfer where
  "c3_timeout_state = idle\<lparr>opcode := 1, filename := [102],
                            net_in := [Datagram ([0, 3, 0, 1] @ replicate 512 120), Timeout]\<rparr>"

text \<open>A request whose buffer takes an error packet with a custom message of 600 bytes.\<close>

definition c9_message :: "byte list" where
  "c9_message = replicate 600 66"





section \<open>Facts about the engine\<close>

lemma sendto_eq:
  "sendto pkt s = (send_ok s, s\<lparr>send_res := tl (send_res s), trace := trace s @ [tx s pkt]\<rparr>)"
  by (cases "send_res s") (simp_all add: sendto_def send_ok_def tx_def)

lemma send_ok_update [simp]:
  "send_ok (s\<lparr>buffer := b\<rparr>) = send_ok s"
  "send_ok (s\<lparr>fpos := p\<rparr>) = send_ok s"
  "send_ok (s\<lparr>net_in := n\<rparr>) = send_ok s"
  "send_ok (s\<lparr>retry := r\<rparr>) = send_ok s"
  "send_ok (s\<lparr>success := c\<rparr>) = send_ok s"
  "send_ok (s\<lparr>block_number := k\<rparr>) = send_ok s"
  "send_ok (s\<lparr>trace := t\<rparr>) = send_ok s"
  "send_ok (s\<lparr>filepath := f\<rparr>) = send_ok s"
  "send_ok (s\<lparr>linked := l\<rparr>) = send_ok s"
  "send_ok (s\<lparr>write_res := w\<rparr>) = send_ok s"
  "send_ok (s\<lparr>opcode := oc\<rparr>) = send_ok s"
  "send_ok (s\<lparr>filename := fn\<rparr>) = send_ok s"
  by (simp_all add: send_ok_def)

lemma tx_update [simp]:
  "tx (s\<lparr>buffer := b\<rparr>) = tx s"
  "tx (s\<lparr>fpos := p\<rparr>) = tx s"
  "tx (s\<lparr>net_in := n\<rparr>) = tx s"
  "tx (s\<lparr>retry := r\<rparr>) = tx s"
  "tx (s\<lparr>success := c\<rparr>) = tx s"
  "tx (s\<lparr>block_number := k\<rparr>) = tx s"
  "tx (s\<lparr>trace := t\<rparr>) = tx s"
  "tx (s\<lparr>filepath := f\<rparr>) = tx s"
  "tx (s\<lparr>linked := l\<rparr>) = tx s"
  "tx (s\<lparr>write_res := w\<rparr>) = tx s"
  "tx (s\<lparr>opcode := oc\<rparr>) = tx s"
  "tx (s\<lparr>filename := fn\<rparr>) = tx s"
  by (simp_all add: tx_def fun_eq_iff)

lemma recv_into_nth:
  "i < length d \<Longrightarrow> i < TFTP_MAX_PACKET_SIZE \<Longrightarrow> recv_into buf d ! i = d ! i"
  by (simp add: recv_into_def Let_def nth_append)


lemma length_data_header [simp]: "length (data_header op b buf) = length buf"
  by (simp add: data_header_def)

lemma drop_data_header [simp]: "4 \<le> n \<Longrightarrow> drop n (data_header op b buf) = drop n buf"
  by (simp add: data_header_def drop_update_cancel)

lemma take_data_header:
  "4 \<le> length buf \<Longrightarrow>
   take 4 (data_header op b buf) =
     [0, word_of_int op, word_of_int (b div 256), word_of_int (b mod 256)]"
  by (cases buf rule: list.exhaust [case_names Nil Cons];
      simp add: data_header_def;
      rename_tac x1 r1; case_tac r1; simp;
      rename_tac x2 r2; case_tac r2; simp;
      rename_tac x3 r3; case_tac r3; simp)

lemma data_header_nth:
  "4 \<le> length buf \<Longrightarrow> data_header op b buf ! 1 = word_of_int op"
  "4 \<le> length buf \<Longrightarrow> data_header op b buf ! 2 = word_of_int (b div 256)"
  "4 \<le> length buf \<Longrightarrow> data_header op b buf ! 3 = word_of_int (b mod 256)"
  by (simp_all add: data_header_def)

lemma fread_eq:
  "fread n s = (min n (length (filepath s) - fpos s),
     s\<lparr>buffer := take TFTP_DATA_HEADER_SIZE (buffer s) @ take n (drop (fpos s) (filepath s))
          @ drop (TFTP_DATA_HEADER_SIZE + min n (length (filepath s) - fpos s)) (buffer s),
       fpos := fpos s + min n (length (filepath s) - fpos s)\<rparr>)"
  by (simp add: fread_def Let_def min.commute)

lemma send_data_packet_eq:
  "send_data_packet n b s =
     (send_ok s,
      s\<lparr>buffer := data_header TFTP_DATA b (buffer s), send_res := tl (send_res s),
        trace := trace s
          @ [tx s (take (n + TFTP_DATA_HEADER_SIZE) (data_header TFTP_DATA b (buffer s)))]\<rparr>)"
  by (simp add: send_data_packet_def sendto_eq data_header_def Let_def)

lemma send_ack_eq:
  "send_ack b s =
     (send_ok s,
      s\<lparr>buffer := data_header TFTP_ACK b (buffer s), send_res := tl (send_res s),
        trace := trace s
          @ [tx s (take TFTP_DATA_HEADER_SIZE (data_header TFTP_ACK b (buffer s)))]\<rparr>)"
  by (simp add: send_ack_def sendto_eq data_header_def Let_def)

lemma get_response_datagram:
  assumes "net_in s = Datagram d # rest"
  shows "get_response s =
     (if uint (recv_into (buffer s) d ! 1) = TFTP_ACK then 1
      else if uint (recv_into (buffer s) d ! 1) = TFTP_DATA
        then int (min (length d) TFTP_MAX_PACKET_SIZE) else - 1,
      s\<lparr>net_in := rest, buffer := recv_into (buffer s) d\<rparr>)"
  using assms by (simp add: get_response_def Let_def)

lemma get_response_fail:
  assumes "fst (get_response s) < 0"
  shows "block_number (snd (get_response s)) = block_number s"
    and "retry (snd (get_response s)) = retry s"
    and "success (snd (get_response s)) = success s"
    and "trace (snd (get_response s)) = trace s"
  by (simp_all add: get_response_def Let_def split: list.splits recv_event.splits)

lemma split_block:
  fixes h l b :: int
  assumes "0 \<le> l" "l < 256" "h * 256 + l = b"
  shows "h = b div 256" "l = b mod 256"
proof -
  have "b div 256 = h"
    using assms div_mult_self3 [of 256 l h] by (simp add: div_pos_pos_trivial)
  then show "h = b div 256" by simp
  have "b mod 256 = l"
    using assms mod_mult_self3 [of h 256 l] by (simp add: mod_pos_pos_trivial)
  then show "l = b mod 256" by simp
qed

lemma block_bytes:
  "uint (x :: byte) * 256 + uint (y :: byte) = b \<longleftrightarrow>
   uint x = b div 256 \<and> uint y = b mod 256"
proof
  assume "uint x * 256 + uint y = b"
  then show "uint x = b div 256 \<and> uint y = b mod 256"
    using uint_lt2p [of y] split_block [of "uint y" "uint x" b] by simp
next
  assume "uint x = b div 256 \<and> uint y = b mod 256"
  then show "uint x * 256 + uint y = b" by simp
qed

lemma check_ack_iff:
  "check_ack buf b \<longleftrightarrow> uint (buf ! 2) = b div 256 \<and> uint (buf ! 3) = b mod 256"
  by (simp add: check_ack_def)

lemma check_ack_field: "check_ack buf b \<longleftrightarrow> block_field buf = b"
  by (simp only: check_ack_iff block_bytes block_field_def)

lemma block_field_range: "0 \<le> block_field d \<and> block_field d < 65536"
proof -
  have "0 \<le> uint (d ! 2)" "uint (d ! 2) < 256" "0 \<le> uint (d ! 3)" "uint (d ! 3) < 256"
    using uint_lt2p [of "d ! 2"] uint_lt2p [of "d ! 3"] by simp_all
  then show ?thesis unfolding block_field_def by arith
qed

lemma check_ack_range:
  "check_ack buf b \<longleftrightarrow> 0 \<le> b \<and> b < 65536 \<and> block_field buf = b"
  using block_field_range [of buf] by (auto simp: check_ack_field)

lemma wire_block:
  fixes b :: int
  shows "uint (word_of_int (b div 256) :: byte) * 256 + uint (word_of_int (b mod 256) :: byte)
         = b mod 65536"
proof -
  have "b mod (256 * 256) = 256 * (b div 256 mod 256) + b mod 256"
    using zmod_zmult2_eq [of 256 b 256] by simp
  moreover have "uint (word_of_int (b div 256) :: byte) = b div 256 mod 256"
    by (simp add: uint_word_of_int)
  moreover have "uint (word_of_int (b mod 256) :: byte) = b mod 256"
    by (simp add: uint_word_of_int)
  ultimately show ?thesis by simp
qed

lemma block_field_data_header:
  "4 \<le> length buf \<Longrightarrow> block_field (data_header op b buf) = b mod 65536"
  by (simp add: block_field_def data_header_nth wire_block)

lemma validate_and_retry_accept:
  assumes "check_ack (buffer s) (block_number s)"
  shows "validate_and_retry n True s =
      (True, s\<lparr>retry := 0, block_number := block_number s + 1, success := True\<rparr>)"
    and "validate_and_retry n False s =
      (True, (snd (send_ack (block_number s) s))
                \<lparr>retry := 0, block_number := block_number s + 1, success := True\<rparr>)"
  using assms by (simp_all add: validate_and_retry_def send_ack_eq)

lemma validate_and_retry_reject:
  assumes "\<not> check_ack (buffer s) (block_number s)"
  shows "retry (snd (validate_and_retry n u s)) = retry s + 1"
    and "block_number (snd (validate_and_retry n u s)) = block_number s"
    and "\<not> success (snd (validate_and_retry n u s))"
    and "fst (validate_and_retry n False s) = (retry s + 1 < TFTP_MAX_RETRIES)"
    and "fst (validate_and_retry n True s)
         = (retry s + 1 < TFTP_MAX_RETRIES \<and> n \<le> fpos s)"
  using assms
  by (auto simp: validate_and_retry_def Let_def fseek_cur_def send_data_packet_eq send_ack_eq)

lemma validate_and_retry_fields:
  "block_number (snd (validate_and_retry n u s))
     = (if check_ack (buffer s) (block_number s) then block_number s + 1 else block_number s)"
  "retry (snd (validate_and_retry n u s))
     = (if check_ack (buffer s) (block_number s) then 0 else retry s + 1)"
  "success (snd (validate_and_retry n u s)) = check_ack (buffer s) (block_number s)"
  by (auto simp: validate_and_retry_def Let_def fseek_cur_def send_data_packet_eq send_ack_eq
      split: option.splits)


lemma get_response_fields:
  "block_number (snd (get_response s)) = block_number s"
  "retry (snd (get_response s)) = retry s"
  "success (snd (get_response s)) = success s"
  "fpos (snd (get_response s)) = fpos s"
  "filepath (snd (get_response s)) = filepath s"
  "send_res (snd (get_response s)) = send_res s"
  "write_res (snd (get_response s)) = write_res s"
  "trace (snd (get_response s)) = trace s"
  by (simp_all add: get_response_def Let_def split: list.splits recv_event.splits)

lemma get_response_ok:
  assumes "0 \<le> fst (get_response s)"
  shows "\<exists>d rest. net_in s = Datagram d # rest
           \<and> snd (get_response s) = s\<lparr>net_in := rest, buffer := recv_into (buffer s) d\<rparr>
           \<and> (uint (recv_into (buffer s) d ! 1) = TFTP_ACK
                \<or> uint (recv_into (buffer s) d ! 1) = TFTP_DATA)"
  using assms
  by (auto simp: get_response_def Let_def split: list.splits recv_event.splits if_splits)

text \<open>The three ways one step of the send loop can end.\<close>

lemma process_transfer_send_outcome:
  fixes s :: transfer
  defines "r \<equiv> process_transfer_send s"
  shows "(\<not> fst r \<and> retry (snd r) = retry s \<and> block_number (snd r) = block_number s
            \<and> success (snd r) = success s)
       \<or> (retry (snd r) = retry s + 1 \<and> block_number (snd r) = block_number s
            \<and> \<not> success (snd r) \<and> (fst r \<longrightarrow> retry s + 1 < TFTP_MAX_RETRIES))
       \<or> (retry (snd r) = 0 \<and> block_number (snd r) = block_number s + 1 \<and> success (snd r)
            \<and> check_ack (buffer (snd r)) (block_number s)
            \<and> (uint (buffer (snd r) ! 1) = TFTP_ACK \<or> uint (buffer (snd r) ! 1) = TFTP_DATA)
            \<and> (\<exists>d rest. net_in s = Datagram d # rest
                  \<and> buffer (snd r) = recv_into
                        (data_header TFTP_DATA (block_number s)
                           (buffer (snd (fread TFTP_MAX_DATA_SIZE s)))) d))"
proof -
  define n where "n = min TFTP_MAX_DATA_SIZE (length (filepath s) - fpos s)"
  define s1 where "s1 = snd (fread TFTP_MAX_DATA_SIZE s)"
  define s2 where "s2 = snd (send_data_packet n (block_number s1) s1)"
  define r1 where "r1 = fst (get_response s2)"
  define s3 where "s3 = snd (get_response s2)"
  define v1 where "v1 = fst (validate_and_retry n True s3)"
  define s4 where "s4 = snd (validate_and_retry n True s3)"
  have f: "fread TFTP_MAX_DATA_SIZE s = (n, s1)"
    by (simp add: s1_def n_def fread_eq)
  have p1: "retry s1 = retry s" "block_number s1 = block_number s" "success s1 = success s"
    "send_ok s1 = send_ok s" "net_in s1 = net_in s"
    by (simp_all add: s1_def fread_eq)
  have d: "send_data_packet n (block_number s1) s1 = (send_ok s, s2)"
    using p1 by (simp add: s2_def send_data_packet_eq)
  have p2: "retry s2 = retry s" "block_number s2 = block_number s" "success s2 = success s"
    "net_in s2 = net_in s"
    using p1 by (simp_all add: s2_def send_data_packet_eq)
  have g: "get_response s2 = (r1, s3)"
    by (simp add: s3_def r1_def)
  have p3: "retry s3 = retry s" "block_number s3 = block_number s" "success s3 = success s"
    using p2 by (simp_all add: s3_def get_response_fields)
  have vv: "validate_and_retry n True s3 = (v1, s4)"
    by (simp add: v1_def s4_def)
  have r: "r = (if n \<le> 0 then (False, s1)
                else if \<not> send_ok s then (False, s2)
                else if r1 < 0 then (False, s3)
                else if \<not> v1 then (False, s4)
                else if n < TFTP_MAX_DATA_SIZE \<and> success s4 then (False, s4)
                else (True, s4))"
    unfolding r_def process_transfer_send_def by (simp add: f d g vv)
  show ?thesis
  proof (cases "n \<le> 0 \<or> \<not> send_ok s \<or> r1 < 0")
    case True
    then show ?thesis using r p1 p2 p3 by auto
  next
    case False
    then have rv: "snd r = s4" "fst r \<longrightarrow> v1" using r by (auto split: if_splits)
    from False have "0 \<le> fst (get_response s2)" by (simp add: r1_def)
    from get_response_ok [OF this] obtain d rest where
      dg: "net_in s2 = Datagram d # rest"
        "s3 = s2\<lparr>net_in := rest, buffer := recv_into (buffer s2) d\<rparr>"
        "uint (recv_into (buffer s2) d ! 1) = TFTP_ACK \<or> uint (recv_into (buffer s2) d ! 1) = TFTP_DATA"
      unfolding s3_def by blast
    show ?thesis
    proof (cases "check_ack (buffer s3) (block_number s3)")
      case True
      have "s4 = s3\<lparr>retry := 0, block_number := block_number s3 + 1, success := True\<rparr>"
        unfolding s4_def using validate_and_retry_accept(1) [OF True] by simp
      moreover have "buffer s2 = data_header TFTP_DATA (block_number s) (buffer s1)"
        using p1 by (simp add: s2_def send_data_packet_eq)
      ultimately show ?thesis using rv True p3 dg p2 by (simp add: s1_def)
    next
      case False
      from validate_and_retry_reject(1-3) [OF False, of n True]
        validate_and_retry_reject(5) [OF False, of n]
      show ?thesis using rv p3 unfolding v1_def s4_def by simp
    qed
  qed
qed

lemma stored_update [simp]:
  "stored (s\<lparr>buffer := b\<rparr>) = stored s"
  "stored (s\<lparr>net_in := n\<rparr>) = stored s"
  "stored (s\<lparr>retry := r\<rparr>) = stored s"
  "stored (s\<lparr>success := c\<rparr>) = stored s"
  "stored (s\<lparr>block_number := k\<rparr>) = stored s"
  "stored (s\<lparr>trace := t\<rparr>) = stored s"
  "stored (s\<lparr>send_res := sr\<rparr>) = stored s"
  "stored (s\<lparr>filepath := f\<rparr>) = stored s"
  "stored (s\<lparr>fpos := p\<rparr>) = stored s"
  "stored (s\<lparr>linked := l\<rparr>) = stored s"
  by (simp_all add: stored_def fun_eq_iff)

lemma fwrite_eq:
  "fwrite xs s = (length (stored s xs),
     s\<lparr>filepath := filepath s @ stored s xs, write_res := tl (write_res s),
       trace := trace s @ [Wrote (stored s xs)]\<rparr>)"
  by (cases "write_res s"; simp add: fwrite_def stored_def min.commute split: fwrite_event.splits)

lemma write_to_file_eq:
  "0 \<le> len \<Longrightarrow>
   write_to_file xs len s = (length (stored s (take (nat len) xs)) = nat len,
     s\<lparr>filepath := filepath s @ stored s (take (nat len) xs), write_res := tl (write_res s),
       trace := trace s @ [Wrote (stored s (take (nat len) xs))]\<rparr>)"
  by (simp add: write_to_file_def fwrite_eq)



lemma send_loop_stop:
  "\<not> fst (process_transfer_send s) \<Longrightarrow> send_loop s = snd (process_transfer_send s)"
  by (cases "process_transfer_send s") (simp add: send_loop.simps [of s])

lemma receive_loop_stop:
  "\<not> fst (process_transfer_receive s) \<Longrightarrow> receive_loop s = snd (process_transfer_receive s)"
  by (cases "process_transfer_receive s") (simp add: receive_loop.simps [of s])

lemma send_loop_step:
  "fst (process_transfer_send s) \<Longrightarrow> send_loop s = send_loop (snd (process_transfer_send s))"
  by (cases "process_transfer_send s") (simp add: send_loop.simps [of s])

lemma receive_loop_step:
  "fst (process_transfer_receive s) \<Longrightarrow>
   receive_loop s = receive_loop (snd (process_transfer_receive s))"
  by (cases "process_transfer_receive s") (simp add: receive_loop.simps [of s])

lemma send_step_accept_eq:
  assumes more: "fpos s < length (filepath s)"
    and ok: "send_ok s"
    and ev: "net_in s = Datagram d # rest"
    and len: "4 \<le> length d"
    and ack: "uint (d ! 1) = TFTP_ACK \<or> uint (d ! 1) = TFTP_DATA"
    and blk: "block_field d = block_number s"
  shows "process_transfer_send s =
     (TFTP_MAX_DATA_SIZE \<le> length (filepath s) - fpos s,
      s\<lparr>buffer := recv_into (data_header TFTP_DATA (block_number s)
                                (buffer (snd (fread TFTP_MAX_DATA_SIZE s)))) d,
        fpos := fpos s + min TFTP_MAX_DATA_SIZE (length (filepath s) - fpos s),
        send_res := tl (send_res s),
        trace := trace s @ [Sent (take (min TFTP_MAX_DATA_SIZE (length (filepath s) - fpos s)
                                        + TFTP_DATA_HEADER_SIZE)
                                   (data_header TFTP_DATA (block_number s)
                                      (buffer (snd (fread TFTP_MAX_DATA_SIZE s)))))],
        net_in := rest, retry := 0, block_number := block_number s + 1, success := True\<rparr>)"
proof -
  define n where "n = min TFTP_MAX_DATA_SIZE (length (filepath s) - fpos s)"
  define s1 where "s1 = snd (fread TFTP_MAX_DATA_SIZE s)"
  define s2 where "s2 = snd (send_data_packet n (block_number s1) s1)"
  define s3 where "s3 = s2\<lparr>net_in := rest, buffer := recv_into (buffer s2) d\<rparr>"
  define s4 where "s4 = s3\<lparr>retry := 0, block_number := block_number s3 + 1, success := True\<rparr>"
  have n: "0 < n" "(n < TFTP_MAX_DATA_SIZE) = (length (filepath s) - fpos s < TFTP_MAX_DATA_SIZE)"
    using more by (simp_all add: n_def tftp_consts min_less_iff_disj)
  have f: "fread TFTP_MAX_DATA_SIZE s = (n, s1)"
    by (simp add: s1_def n_def fread_eq)
  have p1: "net_in s1 = net_in s" "block_number s1 = block_number s" "send_ok s1"
    using ok by (simp_all add: s1_def fread_eq)
  have d: "send_data_packet n (block_number s1) s1 = (True, s2)"
    using p1 by (simp add: s2_def send_data_packet_eq)
  have p2: "net_in s2 = Datagram d # rest" "block_number s2 = block_number s"
    using p1 ev by (simp_all add: s2_def send_data_packet_eq)
  have b1: "recv_into (buffer s2) d ! 1 = d ! 1" "recv_into (buffer s2) d ! 2 = d ! 2"
      "recv_into (buffer s2) d ! 3 = d ! 3"
    using len by (simp_all add: recv_into_nth tftp_consts)
  obtain r1 where g: "get_response s2 = (r1, s3)" and r1: "0 \<le> r1"
    using get_response_datagram [OF p2(1)] b1 ack by (auto simp: s3_def tftp_consts)
  have "check_ack (buffer s3) (block_number s3)"
    using blk b1 p2 by (simp add: check_ack_field block_field_def s3_def)
  then have v: "validate_and_retry n True s3 = (True, s4)"
    unfolding s4_def by (rule validate_and_retry_accept)
  have r: "process_transfer_send s = (\<not> n < TFTP_MAX_DATA_SIZE, s4)"
    using f d g v n(1) r1 by (simp add: process_transfer_send_def s4_def)
  have tx: "tx s1 = Sent" using p1(3) by (simp add: tx_def fun_eq_iff)
  have "s4 = s\<lparr>buffer := recv_into (data_header TFTP_DATA (block_number s) (buffer s1)) d,
        fpos := fpos s + n, send_res := tl (send_res s),
        trace := trace s @ [Sent (take (n + TFTP_DATA_HEADER_SIZE)
                                   (data_header TFTP_DATA (block_number s) (buffer s1)))],
        net_in := rest, retry := 0, block_number := block_number s + 1, success := True\<rparr>"
    unfolding s4_def s3_def s2_def send_data_packet_eq snd_conv tx p1(2)
    by (simp add: s1_def fread_eq n_def)
  then show ?thesis
    using r n(2) by (simp add: n_def s1_def not_less)
qed

lemma send_step_accept:
  assumes more: "fpos s < length (filepath s)"
    and ok: "send_ok s"
    and ev: "net_in s = Datagram d # rest"
    and len: "4 \<le> length d"
    and ack: "uint (d ! 1) = TFTP_ACK \<or> uint (d ! 1) = TFTP_DATA"
    and blk: "block_field d = block_number s"
  shows "retry (snd (process_transfer_send s)) = 0
       \<and> block_number (snd (process_transfer_send s)) = block_number s + 1
       \<and> success (snd (process_transfer_send s))
       \<and> fst (process_transfer_send s) = (TFTP_MAX_DATA_SIZE \<le> length (filepath s) - fpos s)
       \<and> (length (filepath s) - fpos s < TFTP_MAX_DATA_SIZE
            \<longrightarrow> send_loop s = snd (process_transfer_send s))
       \<and> buffer (snd (process_transfer_send s))
           = recv_into (data_header TFTP_DATA (block_number s)
                          (buffer (snd (fread TFTP_MAX_DATA_SIZE s)))) d"
  using send_step_accept_eq [OF assms] send_loop_stop [of s]
  by (simp add: not_less)



lemma send_step_accept_buffer:
  assumes more: "fpos s < length (filepath s)"
    and ok: "send_ok s"
    and ev: "net_in s = Datagram d # rest"
    and op: "uint (recv_into (data_header TFTP_DATA (block_number s)
                       (buffer (snd (fread TFTP_MAX_DATA_SIZE s)))) d ! 1) = TFTP_ACK
           \<or> uint (recv_into (data_header TFTP_DATA (block_number s)
                       (buffer (snd (fread TFTP_MAX_DATA_SIZE s)))) d ! 1) = TFTP_DATA"
    and blk: "block_field (recv_into (data_header TFTP_DATA (block_number s)
                       (buffer (snd (fread TFTP_MAX_DATA_SIZE s)))) d) = block_number s"
  shows "process_transfer_send s =
     (TFTP_MAX_DATA_SIZE \<le> length (filepath s) - fpos s,
      s\<lparr>buffer := recv_into (data_header TFTP_DATA (block_number s)
                                (buffer (snd (fread TFTP_MAX_DATA_SIZE s)))) d,
        fpos := fpos s + min TFTP_MAX_DATA_SIZE (length (filepath s) - fpos s),
        send_res := tl (send_res s),
        trace := trace s @ [Sent (take (min TFTP_MAX_DATA_SIZE (length (filepath s) - fpos s)
                                        + TFTP_DATA_HEADER_SIZE)
                                   (data_header TFTP_DATA (block_number s)
                                      (buffer (snd (fread TFTP_MAX_DATA_SIZE s)))))],
        net_in := rest, retry := 0, block_number := block_number s + 1, success := True\<rparr>)"
proof -
  define n where "n = min TFTP_MAX_DATA_SIZE (length (filepath s) - fpos s)"
  define s1 where "s1 = snd (fread TFTP_MAX_DATA_SIZE s)"
  define s2 where "s2 = snd (send_data_packet n (block_number s1) s1)"
  define s3 where "s3 = s2\<lparr>net_in := rest, buffer := recv_into (buffer s2) d\<rparr>"
  define s4 where "s4 = s3\<lparr>retry := 0, block_number := block_number s3 + 1, success := True\<rparr>"
  have n: "0 < n" "(n < TFTP_MAX_DATA_SIZE) = (length (filepath s) - fpos s < TFTP_MAX_DATA_SIZE)"
    using more by (simp_all add: n_def tftp_consts min_less_iff_disj)
  have f: "fread TFTP_MAX_DATA_SIZE s = (n, s1)"
    by (simp add: s1_def n_def fread_eq)
  have p1: "net_in s1 = net_in s" "block_number s1 = block_number s" "send_ok s1"
    using ok by (simp_all add: s1_def fread_eq)
  have d: "send_data_packet n (block_number s1) s1 = (True, s2)"
    using p1 by (simp add: s2_def send_data_packet_eq)
  have p2: "net_in s2 = Datagram d # rest" "block_number s2 = block_number s"
      "buffer s2 = data_header TFTP_DATA (block_number s) (buffer s1)"
    using p1 ev by (simp_all add: s2_def send_data_packet_eq)
  obtain r1 where g: "get_response s2 = (r1, s3)" and r1: "0 \<le> r1"
    using get_response_datagram [OF p2(1)] op
    unfolding p2(3) s1_def [symmetric] by (auto simp: s3_def p2(3) tftp_consts)
  have "check_ack (buffer s3) (block_number s3)"
    using blk p2 by (simp add: check_ack_field s3_def s1_def)
  then have v: "validate_and_retry n True s3 = (True, s4)"
    unfolding s4_def by (rule validate_and_retry_accept)
  have r: "process_transfer_send s = (\<not> n < TFTP_MAX_DATA_SIZE, s4)"
    using f d g v n(1) r1 by (simp add: process_transfer_send_def s4_def)
  have tx: "tx s1 = Sent" using p1(3) by (simp add: tx_def fun_eq_iff)
  have "s4 = s\<lparr>buffer := recv_into (data_header TFTP_DATA (block_number s) (buffer s1)) d,
        fpos := fpos s + n, send_res := tl (send_res s),
        trace := trace s @ [Sent (take (n + TFTP_DATA_HEADER_SIZE)
                                   (data_header TFTP_DATA (block_number s) (buffer s1)))],
        net_in := rest, retry := 0, block_number := block_number s + 1, success := True\<rparr>"
    unfolding s4_def s3_def s2_def send_data_packet_eq snd_conv tx p1(2)
    by (simp add: s1_def fread_eq n_def)
  then show ?thesis
    using r n(2) by (simp add: n_def s1_def not_less)
qed

lemma stored_full: "length (stored s xs) = length xs \<longleftrightarrow> stored s xs = xs"
proof -
  have "length (take n xs) = length xs \<longleftrightarrow> take n xs = xs" for n
    by (cases "length xs \<le> n") (auto simp: min_def dest: arg_cong [where f = length])
  then show ?thesis
    by (cases "write_res s"; simp add: stored_def split: fwrite_event.splits)
qed

lemma received_payload:
  assumes "4 \<le> length d"
  shows "take (min (length d) TFTP_MAX_PACKET_SIZE - 4) (drop 4 (recv_into buf d))
         = drop 4 (take TFTP_MAX_PACKET_SIZE d)"
proof -
  define m where "m = min (length d) TFTP_MAX_PACKET_SIZE"
  have m: "4 \<le> m" "length (take m d) = m" "take m d = take TFTP_MAX_PACKET_SIZE d"
    using assms by (simp_all add: m_def tftp_consts min_def)
  have "drop 4 (recv_into buf d) = drop 4 (take m d) @ drop m buf"
    using m by (simp add: recv_into_def Let_def m_def [symmetric])
  moreover have "length (drop 4 (take m d)) = m - 4" using m by simp
  ultimately show ?thesis using m unfolding m_def [symmetric] by simp
qed

lemma ack_header:
  "4 \<le> length buf \<Longrightarrow> take TFTP_DATA_HEADER_SIZE (data_header TFTP_ACK b buf) = ack_packet b"
  by (simp add: take_data_header ack_packet_def tftp_consts)

lemma length_recv_into_ge: "min (length d) TFTP_MAX_PACKET_SIZE \<le> length (recv_into buf d)"
  by (simp add: recv_into_def Let_def)

lemma receive_step_accept:
  assumes ev: "net_in s = Datagram d # rest"
    and len: "4 \<le> length d"
    and op: "uint (d ! 1) = TFTP_DATA"
    and blk: "block_field d = block_number s"
  shows "trace (snd (process_transfer_receive s))
           = trace s @ [tx s (ack_packet (block_number s)),
                        Wrote (stored s (drop 4 (take TFTP_MAX_PACKET_SIZE d)))]"
    and "filepath (snd (process_transfer_receive s))
           = filepath s @ stored s (drop 4 (take TFTP_MAX_PACKET_SIZE d))"
    and "block_number (snd (process_transfer_receive s)) = block_number s + 1"
    and "retry (snd (process_transfer_receive s)) = 0"
    and "success (snd (process_transfer_receive s))"
    and "fst (process_transfer_receive s)
           = (stored s (drop 4 (take TFTP_MAX_PACKET_SIZE d)) = drop 4 (take TFTP_MAX_PACKET_SIZE d)
              \<and> TFTP_MAX_PACKET_SIZE \<le> length d)"
    and "net_in (snd (process_transfer_receive s)) = rest"
    and "uint (buffer (snd (process_transfer_receive s)) ! 1) = TFTP_ACK"
    and "write_res (snd (process_transfer_receive s)) = tl (write_res s)"
    and "linked (snd (process_transfer_receive s)) = linked s"
proof -
  define m where "m = min (length d) TFTP_MAX_PACKET_SIZE"
  define payload where "payload = drop 4 (take TFTP_MAX_PACKET_SIZE d)"
  define s1 where "s1 = s\<lparr>net_in := rest, buffer := recv_into (buffer s) d\<rparr>"
  define s2 where "s2 = (snd (send_ack (block_number s1) s1))
      \<lparr>retry := 0, block_number := block_number s1 + 1, success := True\<rparr>"
  define s3 where "s3 = s2\<lparr>filepath := filepath s2 @ stored s2 payload,
      write_res := tl (write_res s2), trace := trace s2 @ [Wrote (stored s2 payload)]\<rparr>"
  have m: "4 \<le> m" "m \<le> TFTP_MAX_PACKET_SIZE" "(m < TFTP_MAX_PACKET_SIZE) = (length d < TFTP_MAX_PACKET_SIZE)"
    using len by (simp_all add: m_def tftp_consts min_less_iff_disj)
  have b1: "recv_into (buffer s) d ! 1 = d ! 1" "recv_into (buffer s) d ! 2 = d ! 2"
      "recv_into (buffer s) d ! 3 = d ! 3"
    using len by (simp_all add: recv_into_nth tftp_consts)
  have g: "get_response s = (int m, s1)"
    using get_response_datagram [OF ev] b1 op by (simp add: s1_def m_def tftp_consts)
  have "check_ack (buffer s1) (block_number s1)"
    using blk b1 by (simp add: check_ack_field block_field_def s1_def)
  then have v: "validate_and_retry 0 False s1 = (True, s2)"
    unfolding s2_def by (rule validate_and_retry_accept)
  have l1: "4 \<le> length (buffer s1)"
    using length_recv_into_ge [of d "buffer s"] m(1) by (simp add: s1_def m_def tftp_consts)
  have buf2: "buffer s2 = data_header TFTP_ACK (block_number s) (buffer s1)"
    by (simp add: s2_def send_ack_eq s1_def)
  have nm: "nat (int m - 4) = m - 4" by simp
  have data: "take (nat (int m - int TFTP_DATA_HEADER_SIZE)) (drop TFTP_DATA_HEADER_SIZE (buffer s2))
      = payload"
  proof -
    have "nat (int m - int TFTP_DATA_HEADER_SIZE) = m - 4"
      by (simp add: tftp_consts)
    then show ?thesis
      using received_payload [OF len, of "buffer s"]
      by (simp add: buf2 s1_def payload_def m_def tftp_consts)
  qed
  have lp: "length payload = m - 4"
    using len by (simp add: payload_def m_def tftp_consts)
  have w: "write_to_file (drop TFTP_DATA_HEADER_SIZE (buffer s2))
      (int m - int TFTP_DATA_HEADER_SIZE) s2 = (stored s2 payload = payload, s3)"
  proof -
    have "0 \<le> int m - int TFTP_DATA_HEADER_SIZE" using m by (simp add: tftp_consts)
    from write_to_file_eq [OF this, of "drop TFTP_DATA_HEADER_SIZE (buffer s2)" s2]
    show ?thesis
      unfolding data s3_def using lp m(1) stored_full [of s2 payload] nm
      by (simp add: tftp_consts)
  qed
  have st: "stored s2 payload = stored s payload"
    by (simp add: s2_def send_ack_eq s1_def stored_def)
  have r: "process_transfer_receive s
      = (stored s payload = payload \<and> \<not> m < TFTP_MAX_PACKET_SIZE, s3)"
    using g v w st m(1) by (simp add: process_transfer_receive_def s3_def s2_def tftp_consts)
  have tr2: "trace s2 = trace s @ [tx s (ack_packet (block_number s))]"
    using ack_header [OF l1] by (simp add: s2_def send_ack_eq s1_def)
  show "trace (snd (process_transfer_receive s))
           = trace s @ [tx s (ack_packet (block_number s)),
                        Wrote (stored s (drop 4 (take TFTP_MAX_PACKET_SIZE d)))]"
    using tr2 st by (simp add: r s3_def payload_def)
  show "filepath (snd (process_transfer_receive s))
           = filepath s @ stored s (drop 4 (take TFTP_MAX_PACKET_SIZE d))"
    using st by (simp add: r s3_def payload_def s2_def send_ack_eq s1_def)
  show "block_number (snd (process_transfer_receive s)) = block_number s + 1"
    by (simp add: r s3_def s2_def s1_def)
  show "retry (snd (process_transfer_receive s)) = 0"
    by (simp add: r s3_def s2_def)
  show "success (snd (process_transfer_receive s))"
    by (simp add: r s3_def s2_def)
  show "fst (process_transfer_receive s)
           = (stored s (drop 4 (take TFTP_MAX_PACKET_SIZE d)) = drop 4 (take TFTP_MAX_PACKET_SIZE d)
              \<and> TFTP_MAX_PACKET_SIZE \<le> length d)"
    using m(3) by (auto simp: r payload_def)
  show "net_in (snd (process_transfer_receive s)) = rest"
    by (simp add: r s3_def s2_def send_ack_eq s1_def)
  show "uint (buffer (snd (process_transfer_receive s)) ! 1) = TFTP_ACK"
    using data_header_nth(1) [OF l1, of TFTP_ACK "block_number s"]
    by (simp add: r s3_def buf2 tftp_consts)
  show "write_res (snd (process_transfer_receive s)) = tl (write_res s)"
    by (simp add: r s3_def s2_def send_ack_eq s1_def)
  show "linked (snd (process_transfer_receive s)) = linked s"
    by (simp add: r s3_def s2_def send_ack_eq s1_def)
qed

lemma receive_step_reject:
  assumes ev: "net_in s = Datagram d # rest"
    and len: "4 \<le> length d"
    and op: "uint (d ! 1) = TFTP_DATA"
    and blk: "block_field d \<noteq> block_number s"
  shows "block_number (snd (process_transfer_receive s)) = block_number s"
    and "retry (snd (process_transfer_receive s)) = retry s + 1"
    and "\<not> success (snd (process_transfer_receive s))"
    and "net_in (snd (process_transfer_receive s)) = rest"
    and "retry s + 1 < TFTP_MAX_RETRIES \<Longrightarrow>
         trace (snd (process_transfer_receive s))
           = trace s @ [tx s (ack_packet (block_number s)),
                        Wrote (stored s (drop 4 (take TFTP_MAX_PACKET_SIZE d)))]"
    and "retry s + 1 < TFTP_MAX_RETRIES \<Longrightarrow>
         filepath (snd (process_transfer_receive s))
           = filepath s @ stored s (drop 4 (take TFTP_MAX_PACKET_SIZE d))"
    and "retry s + 1 < TFTP_MAX_RETRIES \<Longrightarrow>
         fst (process_transfer_receive s)
           = (stored s (drop 4 (take TFTP_MAX_PACKET_SIZE d)) = drop 4 (take TFTP_MAX_PACKET_SIZE d))"
    and "retry s + 1 < TFTP_MAX_RETRIES \<Longrightarrow>
         send_res (snd (process_transfer_receive s)) = tl (send_res s)
         \<and> write_res (snd (process_transfer_receive s)) = tl (write_res s)"
    and "TFTP_MAX_RETRIES \<le> retry s + 1 \<Longrightarrow>
         \<not> fst (process_transfer_receive s)
         \<and> trace (snd (process_transfer_receive s)) = trace s
         \<and> filepath (snd (process_transfer_receive s)) = filepath s"
proof -
  define m where "m = min (length d) TFTP_MAX_PACKET_SIZE"
  define payload where "payload = drop 4 (take TFTP_MAX_PACKET_SIZE d)"
  define s1 where "s1 = s\<lparr>net_in := rest, buffer := recv_into (buffer s) d\<rparr>"
  define s1' where "s1' = s1\<lparr>success := False, retry := retry s + 1\<rparr>"
  define s2 where "s2 = snd (send_ack (block_number s1') s1')"
  define s3 where "s3 = s2\<lparr>filepath := filepath s2 @ stored s2 payload,
      write_res := tl (write_res s2), trace := trace s2 @ [Wrote (stored s2 payload)]\<rparr>"
  have m: "4 \<le> m" "m \<le> TFTP_MAX_PACKET_SIZE"
    using len by (simp_all add: m_def tftp_consts)
  have b1: "recv_into (buffer s) d ! 1 = d ! 1" "recv_into (buffer s) d ! 2 = d ! 2"
      "recv_into (buffer s) d ! 3 = d ! 3"
    using len by (simp_all add: recv_into_nth tftp_consts)
  have g: "get_response s = (int m, s1)"
    using get_response_datagram [OF ev] b1 op by (simp add: s1_def m_def tftp_consts)
  have nack: "\<not> check_ack (buffer s1) (block_number s1)"
    using blk b1 by (simp add: check_ack_field block_field_def s1_def)
  have v: "validate_and_retry 0 False s1
      = (if TFTP_MAX_RETRIES \<le> retry s + 1 then (False, s1') else (True, s2))"
    using nack by (simp add: validate_and_retry_def Let_def s1'_def s2_def s1_def)
  have l1: "4 \<le> length (buffer s1)"
    using length_recv_into_ge [of d "buffer s"] m(1) by (simp add: s1_def m_def tftp_consts)
  have buf2: "buffer s2 = data_header TFTP_ACK (block_number s) (buffer s1)"
    by (simp add: s2_def send_ack_eq s1'_def s1_def)
  have nm: "nat (int m - 4) = m - 4" by simp
  have data: "take (nat (int m - int TFTP_DATA_HEADER_SIZE)) (drop TFTP_DATA_HEADER_SIZE (buffer s2))
      = payload"
    using received_payload [OF len, of "buffer s"] nm
    by (simp add: buf2 s1_def payload_def m_def tftp_consts)
  have lp: "length payload = m - 4"
    using len by (simp add: payload_def m_def tftp_consts)
  have w: "write_to_file (drop TFTP_DATA_HEADER_SIZE (buffer s2))
      (int m - int TFTP_DATA_HEADER_SIZE) s2 = (stored s2 payload = payload, s3)"
  proof -
    have "0 \<le> int m - int TFTP_DATA_HEADER_SIZE" using m by (simp add: tftp_consts)
    from write_to_file_eq [OF this, of "drop TFTP_DATA_HEADER_SIZE (buffer s2)" s2]
    show ?thesis
      unfolding data s3_def using lp m(1) stored_full [of s2 payload] nm
      by (simp add: tftp_consts)
  qed
  have st: "stored s2 payload = stored s payload"
    by (simp add: s2_def send_ack_eq s1'_def s1_def stored_def)
  have ns: "\<not> success s3"
    by (simp add: s3_def s2_def send_ack_eq s1'_def)
  have r: "process_transfer_receive s
      = (if TFTP_MAX_RETRIES \<le> retry s + 1 then (False, s1')
         else (stored s payload = payload, s3))"
    using g v w st m(1) ns by (simp add: process_transfer_receive_def tftp_consts)
  have tr2: "trace s2 = trace s @ [tx s (ack_packet (block_number s))]"
    using ack_header [OF l1] by (simp add: s2_def send_ack_eq s1'_def s1_def)
  show "block_number (snd (process_transfer_receive s)) = block_number s"
    by (simp add: r s3_def s2_def send_ack_eq s1'_def s1_def)
  show "retry (snd (process_transfer_receive s)) = retry s + 1"
    by (simp add: r s3_def s2_def send_ack_eq s1'_def s1_def)
  show "\<not> success (snd (process_transfer_receive s))"
    using ns by (simp add: r s1'_def)
  show "net_in (snd (process_transfer_receive s)) = rest"
    by (simp add: r s3_def s2_def send_ack_eq s1'_def s1_def)
  show "trace (snd (process_transfer_receive s))
           = trace s @ [tx s (ack_packet (block_number s)),
                        Wrote (stored s (drop 4 (take TFTP_MAX_PACKET_SIZE d)))]"
    if "retry s + 1 < TFTP_MAX_RETRIES"
    using that tr2 st by (simp add: r s3_def payload_def)
  show "filepath (snd (process_transfer_receive s))
           = filepath s @ stored s (drop 4 (take TFTP_MAX_PACKET_SIZE d))"
    if "retry s + 1 < TFTP_MAX_RETRIES"
    using that st by (simp add: r s3_def payload_def s2_def send_ack_eq s1'_def s1_def)
  show "fst (process_transfer_receive s)
           = (stored s (drop 4 (take TFTP_MAX_PACKET_SIZE d)) = drop 4 (take TFTP_MAX_PACKET_SIZE d))"
    if "retry s + 1 < TFTP_MAX_RETRIES"
    using that by (simp add: r payload_def)
  show "send_res (snd (process_transfer_receive s)) = tl (send_res s)
         \<and> write_res (snd (process_transfer_receive s)) = tl (write_res s)"
    if "retry s + 1 < TFTP_MAX_RETRIES"
    using that by (simp add: r s3_def s2_def send_ack_eq s1'_def s1_def)
  show "\<not> fst (process_transfer_receive s)
         \<and> trace (snd (process_transfer_receive s)) = trace s
         \<and> filepath (snd (process_transfer_receive s)) = filepath s"
    if "TFTP_MAX_RETRIES \<le> retry s + 1"
    using that by (simp add: r s1'_def s1_def)
qed

lemma receive_step_send_res:
  "send_res s = [] \<Longrightarrow> send_res (snd (process_transfer_receive s)) = []"
proof -
  assume e: "send_res s = []"
  obtain len s1 where g: "get_response s = (len, s1)" by force
  obtain v s2 where w: "validate_and_retry 0 False s1 = (v, s2)" by force
  obtain k s3 where f: "write_to_file (drop TFTP_DATA_HEADER_SIZE (buffer s2))
      (len - int TFTP_DATA_HEADER_SIZE) s2 = (k, s3)" by force
  have 1: "send_res s1 = []" using get_response_fields(6) [of s] g e by simp
  have 2: "send_res s2 = []"
    using w 1 by (auto simp: validate_and_retry_def Let_def send_ack_eq split: if_splits)
  have 3: "send_res s3 = []"
    using f 2 by (auto simp: write_to_file_def fwrite_eq split: if_splits)
  show ?thesis
    using g w f 1 2 3 by (simp add: process_transfer_receive_def split: if_splits)
qed

lemma receive_step_linked:
  "linked (snd (process_transfer_receive s)) = linked s"
proof -
  obtain len s1 where g: "get_response s = (len, s1)" by force
  obtain v s2 where w: "validate_and_retry 0 False s1 = (v, s2)" by force
  obtain k s3 where f: "write_to_file (drop TFTP_DATA_HEADER_SIZE (buffer s2))
      (len - int TFTP_DATA_HEADER_SIZE) s2 = (k, s3)" by force
  have 1: "linked s1 = linked s"
    using g by (auto simp: get_response_def Let_def split: list.splits recv_event.splits if_splits)
  have 2: "linked s2 = linked s1"
    using w by (auto simp: validate_and_retry_def Let_def send_ack_eq split: if_splits)
  have 3: "linked s3 = linked s2"
    using f by (auto simp: write_to_file_def fwrite_eq split: if_splits)
  show ?thesis
    using g w f 1 2 3 by (simp add: process_transfer_receive_def split: if_splits)
qed










lemma data_packet_sent:
  assumes "4 \<le> length buf"
  shows "take (length chunk + TFTP_DATA_HEADER_SIZE)
           (data_header TFTP_DATA b
              (take TFTP_DATA_HEADER_SIZE buf @ chunk
               @ drop (TFTP_DATA_HEADER_SIZE + length chunk) buf))
         = data_packet b chunk"
proof -
  define hb where "hb = take 4 buf"
  have l: "length hb = 4" using assms by (simp add: hb_def)
  have h: "take 4 (data_header TFTP_DATA b (hb @ chunk @ drop (4 + length chunk) buf))
      = [0, word_of_int TFTP_DATA, word_of_int (b div 256), word_of_int (b mod 256)]"
    using l by (intro take_data_header) simp
  have d: "drop 4 (data_header TFTP_DATA b (hb @ chunk @ drop (4 + length chunk) buf))
      = chunk @ drop (4 + length chunk) buf"
    using l by simp
  have "take (length chunk + 4) (data_header TFTP_DATA b (hb @ chunk @ drop (4 + length chunk) buf))
      = take 4 (data_header TFTP_DATA b (hb @ chunk @ drop (4 + length chunk) buf))
        @ take (length chunk) (drop 4 (data_header TFTP_DATA b (hb @ chunk @ drop (4 + length chunk) buf)))"
    by (metis add.commute take_add)
  then show ?thesis
    unfolding h d by (simp add: data_packet_def hb_def tftp_consts)
qed









lemma send_step_eof:
  assumes "length (filepath s) \<le> fpos s"
  shows "\<not> fst (process_transfer_send s)"
    and "trace (snd (process_transfer_send s)) = trace s"
    and "success (snd (process_transfer_send s)) = success s"
  using assms by (simp_all add: process_transfer_send_def fread_eq)

lemma send_request_eq:
  "send_request s =
     (send_ok s,
      s\<lparr>buffer := ([0, word_of_int (opcode s)] @ filename s @ [0] @ bytes_of MODE @ [0])
                   @ drop (length ([0, word_of_int (opcode s)] @ filename s @ [0]
                                   @ bytes_of MODE @ [0])) (buffer s),
        send_res := tl (send_res s),
        trace := trace s @ [tx s ([0, word_of_int (opcode s)] @ filename s @ [0]
                                  @ bytes_of MODE @ [0])]\<rparr>)"
  by (simp add: send_request_def Let_def sendto_eq)

lemma octet_bytes: "bytes_of MODE = [111, 99, 116, 101, 116]"
  by (simp add: bytes_of_def MODE_def)

lemma receive_step_timeout:
  assumes "net_in s = Timeout # rest"
  shows "process_transfer_receive s = (False, s\<lparr>net_in := rest\<rparr>)"
  using assms by (simp add: process_transfer_receive_def get_response_def)

lemma byte_of_int_mod: "(word_of_int (x mod 256) :: byte) = word_of_int x"
  by (rule word_uint_eqI) (simp add: uint_word_of_int)

lemma canonical_no_nul: "0 \<notin> set (bytes_of (tftp_error_message code))"
  by (simp add: tftp_error_message_def bytes_of_def)

lemma cstr_terminated: "0 \<notin> set xs \<Longrightarrow> cstr (xs @ 0 # ys) = xs"
  by (simp add: cstr_def takeWhile_append)

lemma cstr_id: "0 \<notin> set xs \<Longrightarrow> cstr xs = xs"
  by (auto simp: cstr_def)

lemma send_error_packet_eq:
  assumes len: "length (buffer s) = TFTP_MAX_PACKET_SIZE"
    and cs: "c_string custom"
  shows "send_error_packet True code custom s
     = s\<lparr>buffer := error_packet code custom
                     @ drop (length (error_packet code custom)) (buffer s),
          send_res := tl (send_res s),
          trace := trace s @ [tx s (error_packet code custom)]\<rparr>"
    and "length (error_packet code custom) \<le> TFTP_MAX_PACKET_SIZE"
proof -
  define hdr where "hdr = (buffer s)[0 := 0, 1 := word_of_int TFTP_ERROR,
                              2 := word_of_int ((code div 256) mod 256),
                              3 := word_of_int (code mod 256)]"
  define full where "full = (case custom of
                      Some m \<Rightarrow> bytes_of (tftp_error_message code) @ bytes_of '' - '' @ cstr m
                    | None \<Rightarrow> bytes_of (tftp_error_message code))"
  define msg where "msg = take 511 full"
  define out where "out = snprintf (TFTP_MAX_PACKET_SIZE - TFTP_DATA_HEADER_SIZE) full"
  define buf where "buf = take TFTP_DATA_HEADER_SIZE hdr @ out
                   @ drop (TFTP_DATA_HEADER_SIZE + length out) hdr"
  have h4: "take 4 hdr = [0, 5, word_of_int (code div 256), word_of_int (code mod 256)]"
    using take_data_header [of "buffer s" TFTP_ERROR "code div 256 * 256 + code mod 256"] len
    by (simp add: hdr_def data_header_def byte_of_int_mod tftp_consts)
  have lh: "length hdr = 516" using len by (simp add: hdr_def tftp_consts)
  have dh: "drop n hdr = drop n (buffer s)" if "4 \<le> n" for n
    using that by (simp add: hdr_def drop_update_cancel)
  have nn: "0 \<notin> set full"
    using cs canonical_no_nul [of code]
    by (auto simp: full_def c_string_def cstr_id bytes_of_def split: option.splits)
  then have nm: "0 \<notin> set msg" by (auto simp: msg_def dest: in_set_takeD)
  have full: "full = (case custom of
                   None \<Rightarrow> bytes_of (tftp_error_message code)
                 | Some m \<Rightarrow> bytes_of (tftp_error_message code) @ bytes_of '' - '' @ m)"
    using cs by (simp add: full_def c_string_def cstr_id split: option.splits)
  have out: "out = msg @ [0]" by (simp add: out_def msg_def snprintf_def tftp_consts)
  have en: "error_packet code custom = take 4 hdr @ msg @ [0]"
    by (simp add: error_packet_def h4 msg_def full)
  have le: "length (error_packet code custom) = 4 + length msg + 1" "length msg \<le> 511"
    by (simp_all add: en lh msg_def)
  have buf: "buf = error_packet code custom @ drop (length (error_packet code custom)) (buffer s)"
    using dh [of "length (error_packet code custom)"] le
    by (simp add: buf_def out en tftp_consts add.commute)
  have "drop TFTP_DATA_HEADER_SIZE buf = msg @ 0 # drop (length (error_packet code custom)) (buffer s)"
    using lh by (simp add: buf en tftp_consts)
  then have sl: "strlen (drop TFTP_DATA_HEADER_SIZE buf) = length msg"
    using cstr_terminated [OF nm] by (simp add: strlen_def)
  have tk: "take (TFTP_DATA_HEADER_SIZE + strlen (drop TFTP_DATA_HEADER_SIZE buf) + 1) buf
      = error_packet code custom"
    unfolding sl using le by (simp add: buf tftp_consts)
  have "send_error_packet True code custom s
      = snd (sendto (take (TFTP_DATA_HEADER_SIZE + strlen (drop TFTP_DATA_HEADER_SIZE buf) + 1) buf)
               (s\<lparr>buffer := buf\<rparr>))"
    by (simp add: send_error_packet_def Let_def buf_def out_def full_def hdr_def)
  then show "send_error_packet True code custom s
     = s\<lparr>buffer := error_packet code custom
                     @ drop (length (error_packet code custom)) (buffer s),
          send_res := tl (send_res s),
          trace := trace s @ [tx s (error_packet code custom)]\<rparr>"
    unfolding tk by (simp add: sendto_eq buf)
  show "length (error_packet code custom) \<le> TFTP_MAX_PACKET_SIZE"
    using le by (simp add: tftp_consts)
qed

lemma encode_error_packet:
  assumes "ERROR_UNDEFINED \<le> code" and "code \<le> ERROR_NO_SUCH_USER"
  shows "encode_error code custom = Some (error_packet code custom)"
proof -
  have "code = 0 \<or> code = 1 \<or> code = 2 \<or> code = 3 \<or> code = 4 \<or> code = 5 \<or> code = 6 \<or> code = 7"
    using assms by (simp add: tftp_consts) arith
  then have "map_of error_taxonomy code = Some (tftp_error_message code)"
    by (elim disjE) (simp_all add: error_taxonomy_def tftp_error_message_def tftp_consts)
  then show ?thesis
    by (simp add: encode_error_def error_packet_def)
qed


















text \<open>
  A step of the send loop changes the block number only by accepting, and a datagram of at
  least four bytes whose block field differs from the block in flight never advances it.
\<close>

lemma send_step_advance:
  "(block_number (snd (process_transfer_send s)) \<noteq> block_number s \<longrightarrow>
      block_number (snd (process_transfer_send s)) = block_number s + 1
    \<and> retry (snd (process_transfer_send s)) = 0
    \<and> success (snd (process_transfer_send s))
    \<and> (uint (buffer (snd (process_transfer_send s)) ! 1) = TFTP_ACK
        \<or> uint (buffer (snd (process_transfer_send s)) ! 1) = TFTP_DATA)
    \<and> block_field (buffer (snd (process_transfer_send s))) = block_number s
    \<and> (\<exists>d rest. net_in s = Datagram d # rest
          \<and> buffer (snd (process_transfer_send s))
              = recv_into (data_header TFTP_DATA (block_number s)
                             (buffer (snd (fread TFTP_MAX_DATA_SIZE s)))) d))
   \<and> (\<forall>d rest. net_in s = Datagram d # rest \<and> 4 \<le> length d
          \<and> block_field d \<noteq> block_number s \<longrightarrow>
        block_number (snd (process_transfer_send s)) = block_number s
        \<and> (success (snd (process_transfer_send s)) \<longrightarrow> success s))"
proof -
  define s' where "s' = snd (process_transfer_send s)"
  note o = process_transfer_send_outcome [of s, folded s'_def]
  have first: "block_number s' \<noteq> block_number s \<longrightarrow>
      block_number s' = block_number s + 1 \<and> retry s' = 0 \<and> success s'
    \<and> (uint (buffer s' ! 1) = TFTP_ACK \<or> uint (buffer s' ! 1) = TFTP_DATA)
    \<and> block_field (buffer s') = block_number s
    \<and> (\<exists>d rest. net_in s = Datagram d # rest
          \<and> buffer s' = recv_into (data_header TFTP_DATA (block_number s)
                             (buffer (snd (fread TFTP_MAX_DATA_SIZE s)))) d)"
    using o by (auto simp: check_ack_field)
  have second: "block_number s' = block_number s \<and> (success s' \<longrightarrow> success s)"
    if d: "net_in s = Datagram d # rest" "4 \<le> length d" "block_field d \<noteq> block_number s"
    for d rest
  proof (rule ccontr)
    assume "\<not> (block_number s' = block_number s \<and> (success s' \<longrightarrow> success s))"
    with o have acc: "check_ack (buffer s') (block_number s)"
      and buf: "\<exists>d rest. net_in s = Datagram d # rest
          \<and> buffer s' = recv_into (data_header TFTP_DATA (block_number s)
                             (buffer (snd (fread TFTP_MAX_DATA_SIZE s)))) d"
      by auto
    from buf d(1) have "buffer s' = recv_into (data_header TFTP_DATA (block_number s)
                             (buffer (snd (fread TFTP_MAX_DATA_SIZE s)))) d"
      by auto
    then have "block_field (buffer s') = block_field d"
      using d(2) by (simp add: block_field_def recv_into_nth tftp_consts)
    with acc d(3) show False by (simp add: check_ack_field)
  qed
  show ?thesis
    using first second unfolding s'_def by blast
qed

section \<open>The claims\<close>

text \<open>
  C6. In the send loop, an ACK whose block number is the current one resets the retry
  counter to 0 and adds 1 to the block number; when the payload just sent was shorter than
  512 bytes the step reports success and the loop returns.
\<close>

theorem C6_send_ack_advances:
  assumes "fpos s < length (filepath s)"
    and "send_ok s"
    and "net_in s = Datagram d # rest"
    and "4 \<le> length d"
    and "uint (d ! 1) = TFTP_ACK"
    and "block_field d = block_number s"
  shows "retry (snd (process_transfer_send s)) = 0
       \<and> block_number (snd (process_transfer_send s)) = block_number s + 1
       \<and> success (snd (process_transfer_send s))
       \<and> fst (process_transfer_send s) = (TFTP_MAX_DATA_SIZE \<le> length (filepath s) - fpos s)
       \<and> (length (filepath s) - fpos s < TFTP_MAX_DATA_SIZE
            \<longrightarrow> send_loop s = snd (process_transfer_send s))"
  using send_step_accept [of s d rest] assms by simp

theorem C6_witness:
  "fpos c6_state < length (filepath c6_state) \<and> send_ok c6_state
   \<and> net_in c6_state = [Datagram [0, 4, 0, 1]] \<and> block_field [0, 4, 0, 1] = block_number c6_state
   \<and> retry (snd (process_transfer_send c6_state)) = 0
   \<and> block_number (snd (process_transfer_send c6_state)) = 2
   \<and> success (snd (process_transfer_send c6_state))
   \<and> \<not> fst (process_transfer_send c6_state)
   \<and> send_loop c6_state = snd (process_transfer_send c6_state)"
  using C6_send_ack_advances [of c6_state "[0, 4, 0, 1]" "[]"]
  by (simp add: c6_state_def idle_def send_ok_def block_field_def tftp_consts)

text \<open>
  C8 (as amended). The block number is an \<open>int\<close> that is never reduced modulo 65536: an
  accepted packet makes it \<open>block_number + 1\<close>, so 65535 is followed by 65536. The DATA and
  ACK headers carry \<open>block_number mod 65536\<close>, while \<open>check_ack\<close> accepts a buffer exactly
  when the block number lies in 0..65535 and equals the buffer's block field; from 65536 on
  it accepts nothing.
\<close>

theorem C8_block_number_not_wrapped:
  "check_ack buf b = (0 \<le> b \<and> b < 65536 \<and> block_field buf = b)
   \<and> block_number (snd (validate_and_retry n u s))
       = (if check_ack (buffer s) (block_number s) then block_number s + 1 else block_number s)
   \<and> (4 \<le> length (buffer s) \<longrightarrow>
         block_field (buffer (snd (send_data_packet n b s))) = b mod 65536
       \<and> block_field (buffer (snd (send_ack b s))) = b mod 65536)
   \<and> (65536 \<le> b \<longrightarrow> \<not> check_ack buf b)"
proof -
  have "4 \<le> length (buffer s) \<longrightarrow>
         block_field (buffer (snd (send_data_packet n b s))) = b mod 65536
       \<and> block_field (buffer (snd (send_ack b s))) = b mod 65536"
    by (simp add: send_data_packet_eq send_ack_eq block_field_data_header)
  moreover have "65536 \<le> b \<longrightarrow> \<not> check_ack buf b"
    by (simp add: check_ack_range)
  ultimately show ?thesis
    using check_ack_range [of buf b] validate_and_retry_fields(1) [of n u s] by blast
qed

lemma c8_accepts: "check_ack (buffer c8_state) (block_number c8_state)"
  by (simp add: check_ack_iff c8_state_def idle_def)

theorem C8_witness:
  "4 \<le> length (buffer c8_state)
   \<and> block_number (snd (validate_and_retry 512 True c8_state)) = 65536
   \<and> block_field (buffer (snd (send_data_packet 512 65536 c8_state))) = 0
   \<and> block_field (buffer (snd (send_ack 65536 c8_state))) = 0
   \<and> \<not> check_ack [0, 4, 0, 0] 65536"
  using C8_block_number_not_wrapped [of "[0, 4, 0, 0]" 65536 512 True c8_state] c8_accepts
  by (simp add: c8_state_def idle_def)

theorem C8_counterexample:
  "block_number (snd (validate_and_retry 512 True c8_state)) \<noteq> 0
   \<and> take 4 (buffer (snd (send_data_packet 512
         (block_number (snd (validate_and_retry 512 True c8_state))) c8_state))) = [0, 3, 0, 0]
   \<and> \<not> check_ack [0, 4, 0, 0] (block_number (snd (validate_and_retry 512 True c8_state)))"
proof -
  have b: "block_number (snd (validate_and_retry 512 True c8_state)) = 65536"
    using validate_and_retry_fields(1) [of 512 True c8_state] c8_accepts
    by (simp add: c8_state_def idle_def)
  have "take 4 (buffer (snd (send_data_packet 512 65536 c8_state))) = [0, 3, 0, 0]"
    by (simp add: send_data_packet_eq take_data_header c8_state_def idle_def tftp_consts)
  moreover have "\<not> check_ack [0, 4, 0, 0] 65536"
    by (simp add: check_ack_iff)
  ultimately show ?thesis by (simp add: b)
qed

text \<open>
  C4. Two uploads of a three-byte file in which no ACK of block 1 reaches the sender. In
  the first the answer to DATA(1) is a DATA packet of block 1; in the second it is a
  datagram of one byte, which leaves the opcode and the block bytes of the sender's own
  DATA(1) in the shared buffer. In both the send loop takes the answer for ACK(1): it
  resets the retry counter, advances to block 2, and \<open>upload_request\<close> returns true.
\<close>

theorem C4_advances_without_ack:
  "net_in c4_state = [Datagram [0, 4, 0, 0], Datagram [0, 3, 0, 1]]
   \<and> trace (snd (client_upload_request c4_state))
       = [Sent [0, 2, 102, 0, 111, 99, 116, 101, 116, 0], Sent [0, 3, 0, 1, 97, 98, 99]]
   \<and> block_number (snd (client_upload_request c4_state)) = 2
   \<and> retry (snd (client_upload_request c4_state)) = 0
   \<and> fst (client_upload_request c4_state)
   \<and> net_in c4_short_state = [Datagram [0, 4, 0, 0], Datagram [7]]
   \<and> trace (snd (client_upload_request c4_short_state))
       = [Sent [0, 2, 102, 0, 111, 99, 116, 101, 116, 0], Sent [0, 3, 0, 1, 97, 98, 99]]
   \<and> block_number (snd (client_upload_request c4_short_state)) = 2
   \<and> retry (snd (client_upload_request c4_short_state)) = 0
   \<and> fst (client_upload_request c4_short_state)"
proof -
  define wrq :: "byte list" where "wrq = [0, 2, 102, 0, 111, 99, 116, 101, 116, 0]"
  define buf0 :: "byte list" where "buf0 = [0, 4, 0, 0] @ drop 4 (wrq @ replicate 506 0)"
  define L where "L d = idle\<lparr>opcode := 2, filename := [102], filepath := [97, 98, 99],
            linked := True, buffer := buf0, trace := [Sent wrq],
            net_in := [Datagram d], block_number := 1\<rparr>" for d
  have start: "client_upload_request c4_state
        = (success (send_loop (L [0, 3, 0, 1])), send_loop (L [0, 3, 0, 1]))"
      "client_upload_request c4_short_state = (success (send_loop (L [7])), send_loop (L [7]))"
    by (simp_all add: client_upload_request_def send_request_eq octet_bytes c4_state_def
        c4_short_state_def idle_def L_def
        get_response_def recv_into_def Let_def send_ok_def tx_def wrq_def buf0_def tftp_consts)
  have fa: "fpos (L d) < length (filepath (L d))" "send_ok (L d)" "net_in (L d) = Datagram d # []"
      "block_number (L d) = 1" "length (filepath (L d)) - fpos (L d) < TFTP_MAX_DATA_SIZE"
      "trace (L d) = [Sent wrq]" for d
    by (simp_all add: L_def idle_def send_ok_def tftp_consts)
  have hd: "data_header TFTP_DATA (block_number (L d)) (buffer (snd (fread TFTP_MAX_DATA_SIZE (L d))))
      = [0, 3, 0, 1, 97, 98, 99] @ drop 7 buf0" for d
    by (simp add: fread_eq data_header_def L_def idle_def buf0_def wrq_def tftp_consts)
  have pk: "take (min TFTP_MAX_DATA_SIZE (length (filepath (L d)) - fpos (L d)) + TFTP_DATA_HEADER_SIZE)
        ([0, 3, 0, 1, 97, 98, 99] @ drop 7 buf0) = [0, 3, 0, 1, 97, 98, 99]" for d
    by (simp add: L_def idle_def tftp_consts)
  have rc: "uint (recv_into ([0, 3, 0, 1, 97, 98, 99] @ drop 7 buf0) d ! 1) = TFTP_DATA"
      "block_field (recv_into ([0, 3, 0, 1, 97, 98, 99] @ drop 7 buf0) d) = 1"
    if "d = [0, 3, 0, 1] \<or> d = [7]" for d
    using that by (auto simp: recv_into_def block_field_def tftp_consts)
  have step: "process_transfer_send (L d)
      = (False, (L d)\<lparr>buffer := recv_into ([0, 3, 0, 1, 97, 98, 99] @ drop 7 buf0) d,
           fpos := fpos (L d) + min TFTP_MAX_DATA_SIZE (length (filepath (L d)) - fpos (L d)),
           send_res := tl (send_res (L d)),
           trace := [Sent wrq, Sent [0, 3, 0, 1, 97, 98, 99]],
           net_in := [], retry := 0, block_number := 2, success := True\<rparr>)"
    if "d = [0, 3, 0, 1] \<or> d = [7]" for d
    using send_step_accept_buffer [OF fa(1,2,3), of d, unfolded hd pk] rc [OF that] fa(4,5,6) [of d]
    by simp
  have fin: "trace (send_loop (L d)) = [Sent wrq, Sent [0, 3, 0, 1, 97, 98, 99]]"
      "block_number (send_loop (L d)) = 2" "retry (send_loop (L d)) = 0" "success (send_loop (L d))"
    if "d = [0, 3, 0, 1] \<or> d = [7]" for d
    using step [OF that] send_loop_stop [of "L d"] by simp_all
  have n: "net_in c4_state = [Datagram [0, 4, 0, 0], Datagram [0, 3, 0, 1]]"
      "net_in c4_short_state = [Datagram [0, 4, 0, 0], Datagram [7]]"
    by (simp_all add: c4_state_def c4_short_state_def)
  show ?thesis
    using fin [of "[0, 3, 0, 1]"] fin [of "[7]"] n by (simp add: start wrq_def)
qed

text \<open>
  C10. On the receive path an accepted DATA block is acknowledged and the expected block
  number is advanced before the payload is written: the ACK precedes the write in the
  trace, and the block number is advanced whatever the write stores. When \<open>fwrite\<close>
  stores less than the payload the step stops after the ACK has gone out, and there is a
  run in which a block is acknowledged and nothing of it is persisted.
\<close>

theorem C10_ack_before_write:
  assumes "net_in s = Datagram d # rest"
    and "4 \<le> length d"
    and "uint (d ! 1) = TFTP_DATA"
    and "block_field d = block_number s"
  shows "trace (snd (process_transfer_receive s))
           = trace s @ [tx s (ack_packet (block_number s)),
                        Wrote (stored s (drop 4 (take TFTP_MAX_PACKET_SIZE d)))]
       \<and> block_number (snd (process_transfer_receive s)) = block_number s + 1
       \<and> filepath (snd (process_transfer_receive s))
           = filepath s @ stored s (drop 4 (take TFTP_MAX_PACKET_SIZE d))
       \<and> (stored s (drop 4 (take TFTP_MAX_PACKET_SIZE d)) \<noteq> drop 4 (take TFTP_MAX_PACKET_SIZE d)
            \<longrightarrow> \<not> fst (process_transfer_receive s))
       \<and> (\<exists>s0 d0 rest0. net_in s0 = Datagram d0 # rest0 \<and> 4 \<le> length d0
             \<and> uint (d0 ! 1) = TFTP_DATA \<and> block_field d0 = block_number s0
             \<and> drop 4 d0 \<noteq> []
             \<and> Sent (ack_packet (block_number s0)) \<in> set (trace (snd (process_transfer_receive s0)))
             \<and> filepath (snd (process_transfer_receive s0)) = filepath s0)"
proof -
  note a = receive_step_accept [OF assms]
  let ?d0 = "[0, 3, 0, 1, 120, 121] :: byte list"
  have c: "net_in c10_state = Datagram ?d0 # []" "4 \<le> length ?d0" "uint (?d0 ! 1) = TFTP_DATA"
      "block_field ?d0 = block_number c10_state"
    by (simp_all add: c10_state_def idle_def block_field_def tftp_consts)
  note b = receive_step_accept [OF c]
  have "stored c10_state xs = []" for xs
    by (simp add: stored_def c10_state_def)
  moreover have "tx c10_state p = Sent p" for p
    by (simp add: tx_def send_ok_def c10_state_def idle_def)
  ultimately have "Sent (ack_packet (block_number c10_state))
        \<in> set (trace (snd (process_transfer_receive c10_state)))"
      "filepath (snd (process_transfer_receive c10_state)) = filepath c10_state"
    using b(1,2) by simp_all
  moreover have "drop 4 ?d0 \<noteq> []" by simp
  ultimately have "\<exists>s0 d0 rest0. net_in s0 = Datagram d0 # rest0 \<and> 4 \<le> length d0
             \<and> uint (d0 ! 1) = TFTP_DATA \<and> block_field d0 = block_number s0
             \<and> drop 4 d0 \<noteq> []
             \<and> Sent (ack_packet (block_number s0)) \<in> set (trace (snd (process_transfer_receive s0)))
             \<and> filepath (snd (process_transfer_receive s0)) = filepath s0"
    using c by blast
  then show ?thesis using a(1,2,3,6) by simp
qed

theorem C10_witness:
  "net_in c10_state = [Datagram [0, 3, 0, 1, 120, 121]]
   \<and> block_field [0, 3, 0, 1, 120, 121] = block_number c10_state
   \<and> trace (snd (process_transfer_receive c10_state)) = [Sent [0, 4, 0, 1], Wrote []]
   \<and> block_number (snd (process_transfer_receive c10_state)) = 2
   \<and> filepath (snd (process_transfer_receive c10_state)) = []
   \<and> \<not> fst (process_transfer_receive c10_state)"
  using C10_ack_before_write [of c10_state "[0, 3, 0, 1, 120, 121]" "[]"]
  by (simp add: c10_state_def idle_def block_field_def stored_def tx_def send_ok_def
      ack_packet_def tftp_consts)

text \<open>
  C5. A download in which DATA(1), 512 bytes, arrives twice and DATA(2), one byte, follows.
  The run of \<open>download_request\<close> is the receive loop from \<open>c5_loop\<close>. When the
  duplicate of block 1 arrives the receiver expects block 2; it answers with an ACK that
  carries 2, the block it has not received, not 1, stays on block 2, the retry counter
  becomes 1, and the payload of the duplicate is written to the file a second time. The
  download ends as a success with a file of 1025 bytes where 513 were sent.
\<close>

theorem C5_duplicate_is_acked_as_expected_block:
  "snd (client_download_request True c5_state) = remove_on_failure (receive_loop c5_loop)
   \<and> fst (process_transfer_receive c5_loop)
   \<and> block_number c5_stored = 2
   \<and> filepath c5_stored = replicate 512 120
   \<and> net_in c5_stored = [Datagram ([0, 3, 0, 1] @ replicate 512 120), Datagram [0, 3, 0, 2, 121]]
   \<and> fst (process_transfer_receive c5_stored)
   \<and> trace c5_duplicate = trace c5_stored @ [Sent [0, 4, 0, 2], Wrote (replicate 512 120)]
   \<and> block_number c5_duplicate = 2
   \<and> retry c5_duplicate = 1
   \<and> filepath c5_duplicate = replicate 512 120 @ replicate 512 120
   \<and> receive_loop c5_loop = snd (process_transfer_receive c5_duplicate)
   \<and> fst (client_download_request True c5_state)
   \<and> linked (snd (client_download_request True c5_state))
   \<and> filepath (snd (client_download_request True c5_state))
       = replicate 512 120 @ replicate 512 120 @ [121]
   \<and> trace (snd (client_download_request True c5_state))
       = [Sent [0, 1, 102, 0, 111, 99, 116, 101, 116, 0],
          Sent [0, 4, 0, 1], Wrote (replicate 512 120),
          Sent [0, 4, 0, 2], Wrote (replicate 512 120),
          Sent [0, 4, 0, 2], Wrote [121]]"
proof -
  define rrq :: "byte list" where "rrq = [0, 1, 102, 0, 111, 99, 116, 101, 116, 0]"
  let ?d1 = "[0, 3, 0, 1] @ replicate 512 120 :: byte list"
  let ?d2 = "[0, 3, 0, 2, 121] :: byte list"
  have start: "client_download_request True c5_state
      = (success (remove_on_failure (receive_loop c5_loop)), remove_on_failure (receive_loop c5_loop))"
    by (simp add: client_download_request_def send_request_eq octet_bytes c5_state_def
        idle_def Let_def send_ok_def tx_def c5_loop_def)
  have l: "net_in c5_loop = Datagram ?d1 # [Datagram ?d1, Datagram ?d2]" "4 \<le> length ?d1"
      "uint (?d1 ! 1) = TFTP_DATA" "block_field ?d1 = block_number c5_loop"
      "send_res c5_loop = []" "write_res c5_loop = []" "trace c5_loop = [Sent rrq]"
      "filepath c5_loop = []" "linked c5_loop" "block_number c5_loop = 1"
    by (simp_all add: c5_loop_def idle_def block_field_def rrq_def tftp_consts)
  have pay: "drop 4 (take TFTP_MAX_PACKET_SIZE ?d1) = replicate 512 120"
      "drop 4 (take TFTP_MAX_PACKET_SIZE ?d2) = [121]"
    by (simp_all add: tftp_consts)
  have free: "stored s xs = xs" "tx s p = Sent p" if "send_res s = []" "write_res s = []" for s xs p
    using that by (simp_all add: stored_def tx_def send_ok_def)
  note a = receive_step_accept [OF l(1-4), folded c5_stored_def]
  have s1: "fst (process_transfer_receive c5_loop)" "block_number c5_stored = 2"
      "filepath c5_stored = replicate 512 120" "retry c5_stored = 0"
      "net_in c5_stored = Datagram ?d1 # [Datagram ?d2]"
      "trace c5_stored = [Sent rrq, Sent [0, 4, 0, 1], Wrote (replicate 512 120)]"
      "send_res c5_stored = []" "write_res c5_stored = []" "linked c5_stored"
    using a free [OF l(5,6)] l pay receive_step_send_res [OF l(5), folded c5_stored_def]
    by (simp_all add: ack_packet_def tftp_consts)
  have r: "4 \<le> length ?d1" "uint (?d1 ! 1) = TFTP_DATA" "block_field ?d1 \<noteq> block_number c5_stored"
      "retry c5_stored + 1 < TFTP_MAX_RETRIES"
    using s1(2,4) by (simp_all add: block_field_def tftp_consts)
  note b = receive_step_reject [OF s1(5) r(1-3), folded c5_duplicate_def]
  have s2: "fst (process_transfer_receive c5_stored)" "block_number c5_duplicate = 2"
      "retry c5_duplicate = 1"
      "filepath c5_duplicate = replicate 512 120 @ replicate 512 120"
      "net_in c5_duplicate = Datagram ?d2 # []"
      "trace c5_duplicate = trace c5_stored @ [Sent [0, 4, 0, 2], Wrote (replicate 512 120)]"
      "send_res c5_duplicate = []" "write_res c5_duplicate = []"
    using b(1,2,4) b(5) [OF r(4)] b(6) [OF r(4)] b(7) [OF r(4)] b(8) [OF r(4)]
      free [OF s1(7,8)] s1 pay
    by (simp_all add: ack_packet_def tftp_consts)
  have t: "4 \<le> length ?d2" "uint (?d2 ! 1) = TFTP_DATA" "block_field ?d2 = block_number c5_duplicate"
    using s2(2) by (simp_all add: block_field_def tftp_consts)
  note c = receive_step_accept [OF s2(5) t]
  define fin where "fin = snd (process_transfer_receive c5_duplicate)"
  have "linked c5_duplicate"
    using receive_step_linked [of c5_stored] s1(9) by (simp add: c5_duplicate_def)
  have s3: "\<not> fst (process_transfer_receive c5_duplicate)" "success fin"
      "uint (buffer fin ! 1) = TFTP_ACK" "linked fin"
      "filepath fin = replicate 512 120 @ replicate 512 120 @ [121]"
      "trace fin = [Sent rrq, Sent [0, 4, 0, 1], Wrote (replicate 512 120),
          Sent [0, 4, 0, 2], Wrote (replicate 512 120), Sent [0, 4, 0, 2], Wrote [121]]"
    using c [folded fin_def] free [OF s2(7,8)] s1 s2 pay \<open>linked c5_duplicate\<close>
    by (simp_all add: ack_packet_def tftp_consts)
  have loop: "receive_loop c5_loop = fin"
    using receive_loop_step [OF s1(1)] receive_loop_step [OF s2(1), folded c5_duplicate_def]
      receive_loop_stop [OF s3(1)]
    by (simp add: c5_stored_def [symmetric] c5_duplicate_def [symmetric] fin_def)
  have rm: "remove_on_failure fin = fin"
    using s3(2,3) by (simp add: remove_on_failure_def tftp_consts)
  show ?thesis
    using s1 s2 s3 by (simp add: start loop rm rrq_def fin_def [symmetric])
qed





text \<open>
  C1. Uploading an empty file puts no DATA block on the wire and fails, and uploading a
  file of 512 bytes puts exactly one DATA block on the wire, the full one: the send loop
  returns as soon as \<open>fread\<close> reads nothing and never sends the empty final block.
\<close>

theorem C1_no_final_empty_block:
  "trace (snd (client_upload_request (c1_state [])))
     = [Sent [0, 2, 102, 0, 111, 99, 116, 101, 116, 0]]
   \<and> \<not> fst (client_upload_request (c1_state []))
   \<and> trace (snd (client_upload_request (c1_state (replicate 512 7))))
     = [Sent [0, 2, 102, 0, 111, 99, 116, 101, 116, 0],
        Sent (data_packet 1 (replicate 512 7))]
   \<and> fst (client_upload_request (c1_state (replicate 512 7)))"
proof -
  define wrq :: "byte list" where "wrq = [0, 2, 102, 0, 111, 99, 116, 101, 116, 0]"
  define buf0 :: "byte list" where "buf0 = [0, 4, 0, 0] @ drop 4 (wrq @ replicate 506 0)"
  have start: "client_upload_request (c1_state bytes)
      = (success (send_loop (idle\<lparr>opcode := 2, filename := [102], filepath := bytes,
            linked := True, buffer := buf0, trace := [Sent wrq],
            net_in := [Datagram [0, 4, 0, 1]], block_number := 1\<rparr>)),
         send_loop (idle\<lparr>opcode := 2, filename := [102], filepath := bytes,
            linked := True, buffer := buf0, trace := [Sent wrq],
            net_in := [Datagram [0, 4, 0, 1]], block_number := 1\<rparr>))" for bytes
    by (simp add: client_upload_request_def send_request_eq octet_bytes c1_state_def idle_def
        get_response_def recv_into_def Let_def send_ok_def tx_def wrq_def buf0_def tftp_consts)
  define e where "e = idle\<lparr>opcode := 2, filename := [102], filepath := [],
            linked := True, buffer := buf0, trace := [Sent wrq],
            net_in := [Datagram [0, 4, 0, 1]], block_number := 1\<rparr>"
  have "length (filepath e) \<le> fpos e" by (simp add: e_def idle_def)
  from send_step_eof [OF this] have "send_loop e = snd (process_transfer_send e)"
      "trace (snd (process_transfer_send e)) = [Sent wrq]"
      "\<not> success (snd (process_transfer_send e))"
    by (simp_all add: send_loop_stop e_def idle_def)
  then have empty: "trace (snd (client_upload_request (c1_state []))) = [Sent wrq]"
      "\<not> fst (client_upload_request (c1_state []))"
    by (simp_all add: start e_def [symmetric])
  define f where "f = idle\<lparr>opcode := 2, filename := [102], filepath := replicate 512 7,
            linked := True, buffer := buf0, trace := [Sent wrq],
            net_in := [Datagram [0, 4, 0, 1]], block_number := 1\<rparr>"
  have fa: "fpos f < length (filepath f)" "send_ok f" "net_in f = Datagram [0, 4, 0, 1] # []"
      "4 \<le> length [0, 4, 0, 1 :: byte]"
      "uint ([0, 4, 0, 1 :: byte] ! 1) = TFTP_ACK \<or> uint ([0, 4, 0, 1 :: byte] ! 1) = TFTP_DATA"
      "block_field [0, 4, 0, 1] = block_number f"
    by (simp_all add: f_def idle_def send_ok_def block_field_def tftp_consts)
  define f1 where "f1 = snd (process_transfer_send f)"
  have lb: "4 \<le> length (buffer f)" by (simp add: f_def buf0_def)
  have ch: "take TFTP_MAX_DATA_SIZE (drop (fpos f) (filepath f)) = replicate 512 7"
    by (simp add: f_def idle_def tftp_consts)
  have pk: "take (min TFTP_MAX_DATA_SIZE (length (filepath f) - fpos f) + TFTP_DATA_HEADER_SIZE)
        (data_header TFTP_DATA (block_number f) (buffer (snd (fread TFTP_MAX_DATA_SIZE f))))
      = data_packet 1 (replicate 512 7)"
    using data_packet_sent [OF lb, of "replicate 512 7" 1]
    by (simp add: fread_eq ch) (simp add: f_def idle_def tftp_consts)
  have st: "fst (process_transfer_send f)" "trace f1 = [Sent wrq, Sent (data_packet 1 (replicate 512 7))]"
      "success f1" "length (filepath f1) \<le> fpos f1"
    unfolding f1_def send_step_accept_eq [OF fa] snd_conv fst_conv pk
    by (simp_all add: f_def idle_def tftp_consts)
  have "send_loop f = send_loop f1"
    using send_loop_step [OF st(1)] by (simp add: f1_def)
  moreover have "send_loop f1 = snd (process_transfer_send f1)"
    using send_step_eof(1) [OF st(4)] by (simp add: send_loop_stop)
  ultimately have "trace (send_loop f) = trace f1" "success (send_loop f)"
    using send_step_eof(2,3) [OF st(4)] st(3) by simp_all
  then have full: "trace (snd (client_upload_request (c1_state (replicate 512 7))))
     = [Sent wrq, Sent (data_packet 1 (replicate 512 7))]"
      "fst (client_upload_request (c1_state (replicate 512 7)))"
    using st(2) by (simp_all add: start f_def [symmetric])
  show ?thesis
    using empty full unfolding wrq_def by simp
qed

text \<open>
  C3. Two downloads that end in failure and leave the partial file behind. In the first
  the write of block 1 fails on a full disk, in the second block 1 (512 bytes) is stored
  and then nothing arrives until the timeout. In both \<open>success\<close> is still true from the
  accepted block and the buffer holds the ACK just sent, so \<open>remove\<close> is not called and
  \<open>download_request\<close> returns true.
\<close>

theorem C3_partial_file_left_behind:
  "fst (client_download_request True c3_write_state)
   \<and> linked (snd (client_download_request True c3_write_state))
   \<and> filepath (snd (client_download_request True c3_write_state)) = []
   \<and> trace (snd (client_download_request True c3_write_state))
       = [Sent [0, 1, 102, 0, 111, 99, 116, 101, 116, 0], Sent [0, 4, 0, 1], Wrote []]
   \<and> fst (client_download_request True c3_timeout_state)
   \<and> linked (snd (client_download_request True c3_timeout_state))
   \<and> filepath (snd (client_download_request True c3_timeout_state)) = replicate 512 120
   \<and> net_in (snd (client_download_request True c3_timeout_state)) = []"
proof -
  define rrq :: "byte list" where "rrq = [0, 1, 102, 0, 111, 99, 116, 101, 116, 0]"
  define w where "w = idle\<lparr>opcode := 1, filename := [102],
      buffer := rrq @ replicate 506 0, trace := [Sent rrq], linked := True, block_number := 1,
      retry := - 1, net_in := [Datagram [0, 3, 0, 1, 120, 121]],
      write_res := [WriteShort 0 ENOSPC]\<rparr>"
  have startw: "client_download_request True c3_write_state
      = (success (remove_on_failure (receive_loop w)), remove_on_failure (receive_loop w))"
    by (simp add: client_download_request_def send_request_eq octet_bytes c3_write_state_def
        idle_def Let_def send_ok_def tx_def rrq_def w_def)
  let ?d = "[0, 3, 0, 1, 120, 121] :: byte list"
  have wa: "net_in w = Datagram ?d # []" "4 \<le> length ?d" "uint (?d ! 1) = TFTP_DATA"
      "block_field ?d = block_number w"
    by (simp_all add: w_def idle_def block_field_def tftp_consts)
  note a = receive_step_accept [OF wa]
  define w1 where "w1 = snd (process_transfer_receive w)"
  have stw: "stored w xs = []" for xs by (simp add: stored_def w_def)
  have txw: "tx w p = Sent p" for p by (simp add: tx_def send_ok_def w_def idle_def)
  have "\<not> fst (process_transfer_receive w)" using a(6) stw by (simp add: tftp_consts)
  then have lw: "receive_loop w = w1" by (simp add: receive_loop_stop w1_def)
  have w1: "success w1" "uint (buffer w1 ! 1) = TFTP_ACK" "linked w1" "filepath w1 = []"
      "trace w1 = [Sent rrq, Sent [0, 4, 0, 1], Wrote []]"
    using a(1,2,5,8,10) stw txw
    by (simp_all add: w1_def w_def idle_def ack_packet_def tftp_consts)
  have rw: "remove_on_failure w1 = w1"
    using w1(1,2) by (simp add: remove_on_failure_def tftp_consts)
  define t where "t = idle\<lparr>opcode := 1, filename := [102],
      buffer := rrq @ replicate 506 0, trace := [Sent rrq], linked := True, block_number := 1,
      retry := - 1, net_in := [Datagram ([0, 3, 0, 1] @ replicate 512 120), Timeout]\<rparr>"
  have startt: "client_download_request True c3_timeout_state
      = (success (remove_on_failure (receive_loop t)), remove_on_failure (receive_loop t))"
    by (simp add: client_download_request_def send_request_eq octet_bytes c3_timeout_state_def
        idle_def Let_def send_ok_def tx_def rrq_def t_def)
  let ?e = "[0, 3, 0, 1] @ replicate 512 120 :: byte list"
  have ta: "net_in t = Datagram ?e # [Timeout]" "4 \<le> length ?e" "uint (?e ! 1) = TFTP_DATA"
      "block_field ?e = block_number t"
    by (simp_all add: t_def idle_def block_field_def tftp_consts)
  note b = receive_step_accept [OF ta]
  define t1 where "t1 = snd (process_transfer_receive t)"
  have stt: "stored t xs = xs" for xs by (simp add: stored_def t_def idle_def)
  have pay: "drop 4 (take TFTP_MAX_PACKET_SIZE ?e) = replicate 512 120"
    by (simp add: tftp_consts)
  have go: "fst (process_transfer_receive t)" using b(6) stt by (simp add: tftp_consts)
  have t1: "success t1" "uint (buffer t1 ! 1) = TFTP_ACK" "linked t1"
      "filepath t1 = replicate 512 120" "net_in t1 = Timeout # []"
    using b(2,5,7,8,10) stt pay by (simp_all add: t1_def t_def idle_def)
  have "receive_loop t = receive_loop t1"
    using receive_loop_step [OF go] by (simp add: t1_def)
  also have "\<dots> = t1\<lparr>net_in := []\<rparr>"
    using receive_step_timeout [OF t1(5)] receive_loop_stop [of t1] by simp
  finally have lt: "receive_loop t = t1\<lparr>net_in := []\<rparr>" .
  have rt: "remove_on_failure (t1\<lparr>net_in := []\<rparr>) = t1\<lparr>net_in := []\<rparr>"
    using t1(1,2) by (simp add: remove_on_failure_def tftp_consts)
  show ?thesis
    using w1 t1 by (simp add: startw startt lw lt rw rt rrq_def)
qed

text \<open>
  C9. For every error code of \<open>TFTPError\<close> and every custom message (a C string),
  \<open>send_error_packet\<close> lays into the buffer and sends the packet of the specification:
  the bytes 0, 5, the high and the low byte of the code, the message and a terminating NUL,
  where the message is the canonical one of the taxonomy and, with a custom message, the
  canonical one, \<open>" - "\<close> and the custom one, cut to 511 bytes so that it fits 512
  bytes with its NUL.
\<close>

theorem C9_error_packet_layout:
  assumes "length (buffer s) = TFTP_MAX_PACKET_SIZE"
    and "c_string custom"
    and "ERROR_UNDEFINED \<le> code" and "code \<le> ERROR_NO_SUCH_USER"
  shows "\<exists>pkt. encode_error code custom = Some pkt
           \<and> trace (send_error_packet True code custom s) = trace s @ [tx s pkt]
           \<and> take (length pkt) (buffer (send_error_packet True code custom s)) = pkt
           \<and> length pkt \<le> TFTP_MAX_PACKET_SIZE
           \<and> last pkt = 0"
proof -
  have "last (error_packet code custom) = 0"
    by (simp add: error_packet_def)
  then show ?thesis
    using send_error_packet_eq [OF assms(1,2), of code] encode_error_packet [OF assms(3,4)]
    by simp
qed

theorem C9_witness:
  "length (buffer idle) = TFTP_MAX_PACKET_SIZE \<and> c_string (Some c9_message)
   \<and> ERROR_UNDEFINED \<le> ERROR_DISK_FULL \<and> ERROR_DISK_FULL \<le> ERROR_NO_SUCH_USER
   \<and> encode_error ERROR_DISK_FULL (Some c9_message)
       = Some ([0, 5, 0, 3] @ bytes_of ''Disk full or allocation exceeded - ''
               @ replicate 476 66 @ [0])
   \<and> trace (send_error_packet True ERROR_DISK_FULL (Some c9_message) idle)
       = [Sent ([0, 5, 0, 3] @ bytes_of ''Disk full or allocation exceeded - ''
                @ replicate 476 66 @ [0])]"
proof -
  have a: "length (buffer idle) = TFTP_MAX_PACKET_SIZE" "c_string (Some c9_message)"
      "ERROR_UNDEFINED \<le> ERROR_DISK_FULL" "ERROR_DISK_FULL \<le> ERROR_NO_SUCH_USER"
    by (simp_all add: idle_def c_string_def c9_message_def tftp_consts)
  have e: "encode_error ERROR_DISK_FULL (Some c9_message)
      = Some ([0, 5, 0, 3] @ bytes_of ''Disk full or allocation exceeded - ''
              @ replicate 476 66 @ [0])"
    by (simp add: encode_error_def error_taxonomy_def bytes_of_def c9_message_def tftp_consts)
  have t: "tx idle = Sent" "trace idle = []"
    by (simp_all add: tx_def send_ok_def idle_def fun_eq_iff)
  show ?thesis
    using C9_error_packet_layout [OF a] a e t by auto
qed



end
